theory Spec2Isabelle
  imports Main "HOL-Library.Word"
begin

unbundle bit_operations_syntax

section \<open>The audio HAL of src/audio/audio\_hw.c\<close>

text \<open>
  The embedding follows \<^verbatim>\<open>src/audio/audio_hw.c\<close>. The target is a 32-bit ARM SoC, so
  \<^verbatim>\<open>unsigned int\<close>, \<^verbatim>\<open>size_t\<close> and \<^verbatim>\<open>uint32_t\<close> are \<open>32 word\<close> (arithmetic wraps);
  C \<^verbatim>\<open>int\<close> status codes are \<open>int\<close> (they only hold 0 and small negated errno values).
  The model is sequential: the mutexes of the source are not represented.
\<close>

type_synonym u32 = "32 word"
type_synonym byte = "8 word"

subsection \<open>Constants\<close>

definition PCM_CARD :: nat where "PCM_CARD = 0"
definition PCM_CARD_HDMI :: nat where "PCM_CARD_HDMI = 1"
definition PCM_CARD_DEFAULT :: nat where "PCM_CARD_DEFAULT = PCM_CARD"

definition PCM_DEVICE_MM_LP :: nat where "PCM_DEVICE_MM_LP = 0"
definition PCM_DEVICE_MM :: nat where "PCM_DEVICE_MM = 1"
definition PCM_DEVICE_MM_UL :: nat where "PCM_DEVICE_MM_UL = 3"
definition PCM_DEVICE_SCO_IN :: nat where "PCM_DEVICE_SCO_IN = 5"
definition PCM_DEVICE_DEFAULT_OUT :: nat where "PCM_DEVICE_DEFAULT_OUT = PCM_DEVICE_MM"
definition PCM_DEVICE_DEFAULT_IN :: nat where "PCM_DEVICE_DEFAULT_IN = PCM_DEVICE_MM_UL"

definition ABE_BASE_FRAME_COUNT :: u32 where "ABE_BASE_FRAME_COUNT = 24"
definition SHORT_PERIOD_MULTIPLIER :: u32 where "SHORT_PERIOD_MULTIPLIER = 40"
definition SHORT_PERIOD_SIZE :: u32 where
  "SHORT_PERIOD_SIZE = ABE_BASE_FRAME_COUNT * SHORT_PERIOD_MULTIPLIER"
definition LONG_PERIOD_MULTIPLIER :: u32 where "LONG_PERIOD_MULTIPLIER = 2"
definition LONG_PERIOD_SIZE :: u32 where
  "LONG_PERIOD_SIZE = SHORT_PERIOD_SIZE * LONG_PERIOD_MULTIPLIER"
definition PLAYBACK_PERIOD_COUNT :: u32 where "PLAYBACK_PERIOD_COUNT = 4"
definition CAPTURE_PERIOD_COUNT :: u32 where "CAPTURE_PERIOD_COUNT = 2"
definition OUT_SAMPLING_RATE :: u32 where "OUT_SAMPLING_RATE = 44100"
definition MM_FULL_POWER_SAMPLING_RATE :: u32 where "MM_FULL_POWER_SAMPLING_RATE = 48000"
definition SCO_PERIOD_SIZE :: u32 where "SCO_PERIOD_SIZE = 256"
definition SCO_PERIOD_COUNT :: u32 where "SCO_PERIOD_COUNT = 4"
definition SCO_SAMPLING_RATE :: u32 where "SCO_SAMPLING_RATE = 8000"
definition MIN_WRITE_SLEEP_US :: u32 where "MIN_WRITE_SLEEP_US = 5000"
definition RESAMPLER_BUFFER_FRAMES :: u32 where "RESAMPLER_BUFFER_FRAMES = SHORT_PERIOD_SIZE * 2"
definition RESAMPLER_BUFFER_SIZE :: u32 where "RESAMPLER_BUFFER_SIZE = 4 * RESAMPLER_BUFFER_FRAMES"

text \<open>The errno values the file returns negated (\<^verbatim>\<open>errno.h\<close> of the platform).\<close>

definition ENOMEM :: int where "ENOMEM = 12"
definition ENODEV :: int where "ENODEV = 19"
definition EINVAL :: int where "EINVAL = 22"
definition EPIPE :: int where "EPIPE = 32"

text \<open>
  Device selectors of \<^verbatim>\<open>system/audio.h\<close>. That header is not part of the repository; the
  values are the ones the comments of the \<^verbatim>\<open>dev_names\<close> table spell out, and the marker bit
  and the two SCO groups are the values of the same header.
\<close>

definition AUDIO_DEVICE_BIT_IN :: u32 where "AUDIO_DEVICE_BIT_IN = 0x80000000"
definition AUDIO_DEVICE_OUT_EARPIECE :: u32 where "AUDIO_DEVICE_OUT_EARPIECE = 0x1"
definition AUDIO_DEVICE_OUT_SPEAKER :: u32 where "AUDIO_DEVICE_OUT_SPEAKER = 0x2"
definition AUDIO_DEVICE_OUT_WIRED_HEADSET :: u32 where "AUDIO_DEVICE_OUT_WIRED_HEADSET = 0x4"
definition AUDIO_DEVICE_OUT_WIRED_HEADPHONE :: u32 where "AUDIO_DEVICE_OUT_WIRED_HEADPHONE = 0x8"
definition AUDIO_DEVICE_OUT_ALL_SCO :: u32 where "AUDIO_DEVICE_OUT_ALL_SCO = 0x70"
definition AUDIO_DEVICE_OUT_AUX_DIGITAL :: u32 where "AUDIO_DEVICE_OUT_AUX_DIGITAL = 0x400"
definition AUDIO_DEVICE_OUT_ANLG_DOCK_HEADSET :: u32 where
  "AUDIO_DEVICE_OUT_ANLG_DOCK_HEADSET = 0x800"
definition AUDIO_DEVICE_OUT_DGTL_DOCK_HEADSET :: u32 where
  "AUDIO_DEVICE_OUT_DGTL_DOCK_HEADSET = 0x1000"
definition AUDIO_DEVICE_IN_COMMUNICATION :: u32 where "AUDIO_DEVICE_IN_COMMUNICATION = 0x80000001"
definition AUDIO_DEVICE_IN_AMBIENT :: u32 where "AUDIO_DEVICE_IN_AMBIENT = 0x80000002"
definition AUDIO_DEVICE_IN_BUILTIN_MIC :: u32 where "AUDIO_DEVICE_IN_BUILTIN_MIC = 0x80000004"
definition AUDIO_DEVICE_IN_ALL_SCO :: u32 where "AUDIO_DEVICE_IN_ALL_SCO = 0x80000008"
definition AUDIO_DEVICE_IN_WIRED_HEADSET :: u32 where "AUDIO_DEVICE_IN_WIRED_HEADSET = 0x80000010"
definition AUDIO_DEVICE_IN_AUX_DIGITAL :: u32 where "AUDIO_DEVICE_IN_AUX_DIGITAL = 0x80000020"
definition AUDIO_DEVICE_IN_BACK_MIC :: u32 where "AUDIO_DEVICE_IN_BACK_MIC = 0x80000080"

subsection \<open>Data model\<close>

datatype pcm_format = PCM_FORMAT_S16_LE

record pcm_config =
  channels :: u32
  rate :: u32
  period_size :: u32
  period_count :: u32
  format :: pcm_format
  start_threshold :: u32
  avail_min :: u32

definition pcm_config_out :: pcm_config where
  "pcm_config_out = \<lparr>channels = 2, rate = OUT_SAMPLING_RATE, period_size = SHORT_PERIOD_SIZE,
     period_count = PLAYBACK_PERIOD_COUNT, format = PCM_FORMAT_S16_LE,
     start_threshold = 0, avail_min = 0\<rparr>"

definition pcm_config_out_lp :: pcm_config where
  "pcm_config_out_lp = \<lparr>channels = 2, rate = OUT_SAMPLING_RATE, period_size = LONG_PERIOD_SIZE,
     period_count = PLAYBACK_PERIOD_COUNT, format = PCM_FORMAT_S16_LE,
     start_threshold = 0, avail_min = 0\<rparr>"

definition pcm_config_in :: pcm_config where
  "pcm_config_in = \<lparr>channels = 2, rate = OUT_SAMPLING_RATE, period_size = SHORT_PERIOD_SIZE,
     period_count = CAPTURE_PERIOD_COUNT, format = PCM_FORMAT_S16_LE,
     start_threshold = 0, avail_min = 0\<rparr>"

definition pcm_config_sco :: pcm_config where
  "pcm_config_sco = \<lparr>channels = 1, rate = SCO_SAMPLING_RATE, period_size = SCO_PERIOD_SIZE,
     period_count = SCO_PERIOD_COUNT, format = PCM_FORMAT_S16_LE,
     start_threshold = 0, avail_min = 0\<rparr>"

definition pcm_config_hdmi :: pcm_config where
  "pcm_config_hdmi = \<lparr>channels = 2, rate = 48000, period_size = LONG_PERIOD_SIZE,
     period_count = PLAYBACK_PERIOD_COUNT, format = PCM_FORMAT_S16_LE,
     start_threshold = LONG_PERIOD_SIZE * 2, avail_min = 0\<rparr>"

text \<open>
  \<^verbatim>\<open>struct audio_device\<close>. The model holds one output and one input stream, so the two
  \<^verbatim>\<open>active_*\<close> pointers are booleans: \<open>True\<close> when the pointer refers to that stream, \<open>False\<close>
  when it is \<^verbatim>\<open>NULL\<close>.
\<close>

record audio_device =
  out_device :: u32
  in_device :: u32
  mic_mute :: bool
  orientation :: int
  low_power_hint :: bool
  active_out :: bool
  active_in :: bool

text \<open>
  The fields \<^verbatim>\<open>pcm\<close>, \<^verbatim>\<open>pcm_config\<close>, \<^verbatim>\<open>standby\<close> and \<^verbatim>\<open>resampler\<close> occur in both
  \<^verbatim>\<open>struct stream_out\<close> and \<^verbatim>\<open>struct stream_in\<close>; they form the common record that both
  extend. \<open>pcm = None\<close> is the \<^verbatim>\<open>NULL\<close> handle, \<open>Some h\<close> a pointer to the endpoint object
  number \<open>h\<close> (which \<^verbatim>\<open>pcm_close\<close> may already have freed). \<open>resampler\<close> tells whether the
  converter pointer is non-\<^verbatim>\<open>NULL\<close>, and \<open>scratch_allocated\<close> whether \<^verbatim>\<open>out->buffer\<close> is.
  The hint \<^verbatim>\<open>adev->low_power\<close> is \<open>low_power_hint\<close>. Fields that the modelled functions never
  read (\<^verbatim>\<open>adev->standby\<close>, \<^verbatim>\<open>out->buffer_frames\<close>, the mixer handles) are left out.
\<close>

record stream =
  pcm :: "nat option"
  pcm_config :: pcm_config
  standby :: bool
  resampler :: bool

record stream_out = stream +
  scratch_allocated :: bool
  write_threshold :: int
  low_power :: int

text \<open>
  Sample memory is byte addressed and, like the C code, unchecked: a buffer is a map from byte
  offsets to bytes with no recorded bound.
\<close>

type_synonym mem = "nat \<Rightarrow> byte"

record stream_in = stream +
  requested_rate :: u32
  buffer :: mem
  frames_in :: u32
  read_status :: int

subsection \<open>Collaborators and the trace of their calls\<close>

datatype direction = PCM_OUT | PCM_IN

text \<open>On the write path a buffer is known by its pointer: the caller's \<^verbatim>\<open>buffer\<close> argument
  or the stream's scratch buffer \<^verbatim>\<open>out->buffer\<close>.\<close>

datatype buf_ptr = ClientBuffer | ScratchBuffer

datatype event =
    PcmOpen nat nat direction pcm_config
  | PcmClose "nat option"
  | PcmMmapWrite "nat option" buf_ptr u32
  | PcmRead "nat option" u32
  | PcmGetHtimestamp "nat option"
  | Usleep u32
  | CreateResampler u32 u32 u32
  | Malloc u32
  | ResamplerReset direction
  | ResampleFromInput buf_ptr u32 buf_ptr u32
  | ResampleFromProvider u32
  | ResetMixerState
  | ApplyPath string
  | UpdateMixerState

text \<open>What \<^verbatim>\<open>pcm_open\<close> hands back: \<^verbatim>\<open>NULL\<close>, an object for which \<^verbatim>\<open>pcm_is_ready\<close> is
  false, or a ready endpoint.\<close>

datatype open_result = OpenNull | OpenNotReady nat | OpenReady nat

fun handle_of :: "open_result \<Rightarrow> nat option" where
  "handle_of OpenNull = None"
| "handle_of (OpenNotReady h) = Some h"
| "handle_of (OpenReady h) = Some h"

text \<open>\<^verbatim>\<open>struct resampler_buffer\<close>: \<open>raw\<close> is \<open>None\<close> for \<^verbatim>\<open>NULL\<close>, else the byte offset of the
  pointer into the input stream's raw buffer.\<close>

record resampler_buffer =
  raw :: "nat option"
  frame_count :: u32

text \<open>
  One call of the converter's \<^verbatim>\<open>resample_from_provider\<close>, seen from this file: it asks the
  Buffer Provider for frames (\<open>RsGet\<close>, continuing on the status and the buffer descriptor it
  gets back), gives frames back (\<open>RsRelease\<close> with the \<^verbatim>\<open>frame_count\<close> it consumed) and ends
  (\<open>RsDone\<close>) with the number of frames produced and the bytes it stored at the destination.
\<close>

datatype rs_run =
    RsDone u32 "byte list"
  | RsGet u32 "int \<times> resampler_buffer \<Rightarrow> rs_run"
  | RsRelease u32 rs_run

text \<open>
  The behaviour of the external collaborators (tinyalsa, the resampler library, the allocator)
  is a parameter: the answer to the \<open>k\<close>-th call of each kind.
\<close>

record hw =
  pcm_open_r :: "nat \<Rightarrow> open_result"
  pcm_mmap_write_r :: "nat \<Rightarrow> int"
  pcm_read_r :: "nat \<Rightarrow> int \<times> byte list"
  pcm_get_htimestamp_r :: "nat \<Rightarrow> int \<times> u32"
  pcm_get_buffer_size_r :: "nat \<Rightarrow> u32"
  create_resampler_r :: "nat \<Rightarrow> int"
  malloc_r :: "nat \<Rightarrow> bool"
  resample_from_input_r :: "nat \<Rightarrow> u32 \<Rightarrow> u32 \<Rightarrow> u32 \<times> u32"
  resample_from_provider_r :: "nat \<Rightarrow> u32 \<Rightarrow> rs_run"

record system =
  adev :: audio_device
  out_stream :: stream_out
  in_stream :: stream_in
  trace :: "event list"
  n_open :: nat
  n_write :: nat
  n_read :: nat
  n_htimestamp :: nat
  n_create :: nat
  n_malloc :: nat
  n_resample :: nat

definition emit :: "event \<Rightarrow> system \<Rightarrow> system" where
  "emit e s = s\<lparr>trace := trace s @ [e]\<rparr>"

subsection \<open>Standby\<close>

definition do_out_standby :: "system \<Rightarrow> system" where
  "do_out_standby s =
     (if \<not> standby (out_stream s) then
        (emit (PcmClose (pcm (out_stream s))) s)
          \<lparr>out_stream := (out_stream s)\<lparr>pcm := None, standby := True\<rparr>,
           adev := (adev s)\<lparr>active_out := False\<rparr>\<rparr>
      else s)"

definition do_in_standby :: "system \<Rightarrow> system" where
  "do_in_standby s =
     (if \<not> standby (in_stream s) then
        (emit (PcmClose (pcm (in_stream s))) s)
          \<lparr>in_stream := (in_stream s)\<lparr>pcm := None, standby := True\<rparr>,
           adev := (adev s)\<lparr>active_in := False\<rparr>\<rparr>
      else s)"

definition out_standby :: "system \<Rightarrow> int \<times> system" where
  "out_standby s = (0, do_out_standby s)"

definition in_standby :: "system \<Rightarrow> int \<times> system" where
  "in_standby s = (0, do_in_standby s)"

subsection \<open>Latency\<close>

text \<open>The division traps when the rate is zero; that is the result \<open>None\<close>.\<close>

definition out_get_latency :: "stream_out \<Rightarrow> u32 option" where
  "out_get_latency out =
     (if rate (pcm_config out) = 0 then None
      else Some ((SHORT_PERIOD_SIZE * PLAYBACK_PERIOD_COUNT * 1000) div rate (pcm_config out)))"

subsection \<open>Frame sizes\<close>

text \<open>
  \<^verbatim>\<open>audio_stream_frame_size\<close> of \<^verbatim>\<open>hardware/audio.h\<close> multiplies the sample size of the
  stream's format by the number of channels of its channel mask. The output stream reports 16-bit
  stereo (\<^verbatim>\<open>out_get_format\<close>, \<^verbatim>\<open>out_get_channels\<close>), the input stream 16-bit mono.
\<close>

definition out_frame_size :: u32 where "out_frame_size = 4"
definition in_frame_size :: u32 where "in_frame_size = 2"

definition out_get_sample_rate :: u32 where "out_get_sample_rate = OUT_SAMPLING_RATE"

definition in_get_sample_rate :: "stream_in \<Rightarrow> u32" where
  "in_get_sample_rate inp = requested_rate inp"

subsection \<open>Device routing\<close>

record dev_name =
  mask' :: u32
  output_flag :: int
  name :: string

definition dev_names :: "dev_name list" where
  "dev_names =
    [\<lparr>mask' = AUDIO_DEVICE_OUT_EARPIECE, output_flag = 1, name = ''earpiece''\<rparr>,
     \<lparr>mask' = AUDIO_DEVICE_OUT_SPEAKER, output_flag = 1, name = ''speaker''\<rparr>,
     \<lparr>mask' = AUDIO_DEVICE_OUT_WIRED_HEADSET OR AUDIO_DEVICE_OUT_WIRED_HEADPHONE,
       output_flag = 1, name = ''headphone''\<rparr>,
     \<lparr>mask' = AUDIO_DEVICE_OUT_WIRED_HEADSET OR AUDIO_DEVICE_OUT_WIRED_HEADPHONE,
       output_flag = 1, name = ''headphone''\<rparr>,
     \<lparr>mask' = AUDIO_DEVICE_OUT_AUX_DIGITAL, output_flag = 1, name = ''aux-digital-out''\<rparr>,
     \<lparr>mask' = AUDIO_DEVICE_OUT_ANLG_DOCK_HEADSET, output_flag = 1, name = ''analog-dock''\<rparr>,
     \<lparr>mask' = AUDIO_DEVICE_OUT_DGTL_DOCK_HEADSET, output_flag = 1, name = ''digital-dock''\<rparr>,
     \<lparr>mask' = AUDIO_DEVICE_IN_COMMUNICATION, output_flag = 0, name = ''comms''\<rparr>,
     \<lparr>mask' = AUDIO_DEVICE_IN_AMBIENT, output_flag = 0, name = ''ambient''\<rparr>,
     \<lparr>mask' = AUDIO_DEVICE_IN_BUILTIN_MIC, output_flag = 0, name = ''builtin-mic''\<rparr>,
     \<lparr>mask' = AUDIO_DEVICE_IN_WIRED_HEADSET, output_flag = 0, name = ''headset''\<rparr>,
     \<lparr>mask' = AUDIO_DEVICE_IN_AUX_DIGITAL, output_flag = 0, name = ''aux-digital-in''\<rparr>,
     \<lparr>mask' = AUDIO_DEVICE_IN_BACK_MIC, output_flag = 0, name = ''back-mic''\<rparr>]"

text \<open>
  The body of the \<^verbatim>\<open>for\<close> loop of \<^verbatim>\<open>select_devices\<close>, one table entry after the other. The
  triple carries the locals \<^verbatim>\<open>out_devices\<close> and \<^verbatim>\<open>in_devices\<close> and the calls made so far.
\<close>

fun select_loop :: "dev_name list \<Rightarrow> u32 \<Rightarrow> u32 \<Rightarrow> u32 \<times> u32 \<times> event list
    \<Rightarrow> u32 \<times> u32 \<times> event list" where
  "select_loop [] od idv acc = acc"
| "select_loop (e # es) od idv (out_devices, in_devices, calls) =
     (if output_flag e \<noteq> 0 then
        (if od AND mask' e \<noteq> 0 then
           select_loop es od idv (out_devices OR mask' e, in_devices, calls @ [ApplyPath (name e)])
         else select_loop es od idv (out_devices, in_devices, calls))
      else
        (if (idv - AUDIO_DEVICE_BIT_IN) AND (mask' e - AUDIO_DEVICE_BIT_IN) \<noteq> 0 then
           select_loop es od idv (out_devices, in_devices OR mask' e, calls @ [ApplyPath (name e)])
         else select_loop es od idv (out_devices, in_devices, calls)))"

definition select_devices :: "system \<Rightarrow> system" where
  "select_devices s =
     (let calls = snd (snd (select_loop dev_names (out_device (adev s)) (in_device (adev s))
                              (0, 0, [ResetMixerState])))
      in s\<lparr>trace := trace s @ calls @ [UpdateMixerState]\<rparr>)"

text \<open>The matching rule in the words of the specification: output bits compared directly,
  input bits compared after clearing the IN marker bit on both sides.\<close>

definition spec_entry_matches :: "u32 \<Rightarrow> u32 \<Rightarrow> dev_name \<Rightarrow> bool" where
  "spec_entry_matches od idv e =
     (if output_flag e \<noteq> 0 then od AND mask' e \<noteq> 0
      else (idv AND NOT AUDIO_DEVICE_BIT_IN) AND (mask' e AND NOT AUDIO_DEVICE_BIT_IN) \<noteq> 0)"

subsection \<open>Starting a stream\<close>

text \<open>The test of both start functions, \<open>a\<close> the rate of the stream being started and \<open>b\<close>
  the rate of the active stream of the other direction.\<close>

definition rate_conflict :: "u32 \<Rightarrow> u32 \<Rightarrow> bool" where
  "rate_conflict a b =
     ((a mod 8000 = 0 \<and> b mod 8000 \<noteq> 0) \<or> (a mod 11025 = 0 \<and> b mod 11025 \<noteq> 0))"

text \<open>The rate families in the words of the specification: one rate is a multiple of 8000
  (of 11025) and the other is not.\<close>

definition incompatible_family :: "u32 \<Rightarrow> u32 \<Rightarrow> bool" where
  "incompatible_family a b =
     (((a mod 8000 = 0) \<noteq> (b mod 8000 = 0)) \<or> ((a mod 11025 = 0) \<noteq> (b mod 11025 = 0)))"

text \<open>Card, device and geometry chosen by \<^verbatim>\<open>start_output_stream\<close> before it opens.\<close>

definition out_geometry :: "system \<Rightarrow> nat \<times> nat \<times> system" where
  "out_geometry s =
     (let out = out_stream s in
      if out_device (adev s) AND AUDIO_DEVICE_OUT_AUX_DIGITAL \<noteq> 0 then
        (PCM_CARD_HDMI, PCM_DEVICE_DEFAULT_OUT, s\<lparr>out_stream := out\<lparr>pcm_config := pcm_config_hdmi\<rparr>\<rparr>)
      else if low_power out \<noteq> 0 then
        (PCM_CARD_DEFAULT, PCM_DEVICE_MM_LP,
         s\<lparr>out_stream := out
            \<lparr>pcm_config := (pcm_config out)\<lparr>start_threshold := LONG_PERIOD_SIZE * 2,
                                               avail_min := LONG_PERIOD_SIZE\<rparr>,
             write_threshold := uint (PLAYBACK_PERIOD_COUNT * LONG_PERIOD_SIZE)\<rparr>\<rparr>)
      else
        (PCM_CARD_DEFAULT, PCM_DEVICE_DEFAULT_OUT,
         s\<lparr>out_stream := out
            \<lparr>pcm_config := (pcm_config out)\<lparr>start_threshold := SHORT_PERIOD_SIZE * 2,
                                               avail_min := SHORT_PERIOD_SIZE\<rparr>,
             write_threshold := uint (PLAYBACK_PERIOD_COUNT * SHORT_PERIOD_SIZE)\<rparr>\<rparr>))"

definition start_output_stream :: "hw \<Rightarrow> system \<Rightarrow> int \<times> system" where
  "start_output_stream h s0 =
     (let (card, device, s1) = out_geometry s0;
          s2 = (if active_in (adev s1) \<and>
                   rate_conflict (rate (pcm_config (out_stream s1))) (rate (pcm_config (in_stream s1)))
                then do_in_standby s1 else s1);
          r = pcm_open_r h (n_open s2);
          s3 = (emit (PcmOpen card device PCM_OUT (pcm_config (out_stream s2))) s2)
                 \<lparr>n_open := Suc (n_open s2),
                  out_stream := (out_stream s2)\<lparr>pcm := handle_of r\<rparr>\<rparr>
      in case r of
           OpenNotReady p \<Rightarrow> (- ENOMEM, emit (PcmClose (Some p)) s3)
         | _ \<Rightarrow>
           (let s4 = s3\<lparr>adev := (adev s3)\<lparr>active_out := True\<rparr>\<rparr>
            in (0, if resampler (out_stream s4) then emit (ResamplerReset PCM_OUT) s4 else s4)))"

definition in_geometry :: "system \<Rightarrow> nat \<times> nat \<times> system" where
  "in_geometry s =
     (let inp = in_stream s in
      if (in_device (adev s) - AUDIO_DEVICE_BIT_IN) AND
         (AUDIO_DEVICE_IN_ALL_SCO - AUDIO_DEVICE_BIT_IN) \<noteq> 0 then
        (PCM_CARD_DEFAULT, PCM_DEVICE_SCO_IN, s\<lparr>in_stream := inp\<lparr>pcm_config := pcm_config_sco\<rparr>\<rparr>)
      else
        (PCM_CARD_DEFAULT, PCM_DEVICE_DEFAULT_IN, s\<lparr>in_stream := inp\<lparr>pcm_config := pcm_config_in\<rparr>\<rparr>))"

definition start_input_stream :: "hw \<Rightarrow> system \<Rightarrow> int \<times> system" where
  "start_input_stream h s0 =
     (let (card, device, s1) = in_geometry s0;
          s2 = (if active_out (adev s1) \<and>
                   rate_conflict (rate (pcm_config (in_stream s1))) (rate (pcm_config (out_stream s1)))
                then do_out_standby s1 else s1);
          r = pcm_open_r h (n_open s2);
          s3 = (emit (PcmOpen card device PCM_IN (pcm_config (in_stream s2))) s2)
                 \<lparr>n_open := Suc (n_open s2),
                  in_stream := (in_stream s2)\<lparr>pcm := handle_of r\<rparr>\<rparr>
      in case r of
           OpenNotReady p \<Rightarrow> (- ENOMEM, emit (PcmClose (Some p)) s3)
         | _ \<Rightarrow>
           (let s4 = s3\<lparr>adev := (adev s3)\<lparr>active_in := True\<rparr>\<rparr>
            in (0, if resampler (in_stream s4)
                   then (emit (ResamplerReset PCM_IN) s4)
                          \<lparr>in_stream := (in_stream s4)\<lparr>frames_in := 0\<rparr>\<rparr>
                   else s4)))"

subsection \<open>The write path\<close>

text \<open>
  The locals of \<^verbatim>\<open>out_write\<close> that are initialised before the label \<^verbatim>\<open>do_over\<close> and so
  keep their values across a retry. Sample values are not represented on the write path: the
  model records which buffer and how many frames or bytes go to each collaborator. The loop that
  discards the right channel in place therefore only shows in \<open>frame_size\<close>.
\<close>

record out_locals =
  bytes :: u32
  frame_size :: u32
  in_buffer :: buf_ptr
  in_frames :: u32
  out_frames :: u32

definition out_locals_init :: "u32 \<Rightarrow> out_locals" where
  "out_locals_init b =
     \<lparr>bytes = b, frame_size = out_frame_size, in_buffer = ClientBuffer,
      in_frames = b div out_frame_size, out_frames = RESAMPLER_BUFFER_SIZE div out_frame_size\<rparr>"

text \<open>Lines 699 to 713: the converter and its scratch buffer are created on first need.\<close>

definition out_ensure_resampler :: "hw \<Rightarrow> system \<Rightarrow> (int \<times> system) + system" where
  "out_ensure_resampler h s =
     (if \<not> resampler (out_stream s) then
        (let ret = create_resampler_r h (n_create s);
             s1 = (emit (CreateResampler OUT_SAMPLING_RATE MM_FULL_POWER_SAMPLING_RATE 2) s)
                    \<lparr>n_create := Suc (n_create s)\<rparr>
         in if ret \<noteq> 0 then Inl (ret, s1)
            else
              (let ok = malloc_r h (n_malloc s1);
                   s2 = (emit (Malloc RESAMPLER_BUFFER_SIZE) s1)
                          \<lparr>n_malloc := Suc (n_malloc s1),
                           out_stream := (out_stream s1)\<lparr>resampler := True,
                                                             scratch_allocated := ok\<rparr>\<rparr>
               in if \<not> ok then Inl (- ENOMEM, s2) else Inr s2))
      else Inr s)"

text \<open>Lines 698 to 723. \<open>Inl\<close> is a jump to \<^verbatim>\<open>exit\<close> with that status.\<close>

definition out_convert :: "hw \<Rightarrow> system \<Rightarrow> out_locals \<Rightarrow> (int \<times> system) + (system \<times> out_locals)" where
  "out_convert h s l =
     (if rate (pcm_config (out_stream s)) \<noteq> OUT_SAMPLING_RATE then
        (case out_ensure_resampler h s of
           Inl e \<Rightarrow> Inl e
         | Inr s1 \<Rightarrow>
           (let r = resample_from_input_r h (n_resample s1) (in_frames l) (out_frames l);
                s2 = (emit (ResampleFromInput (in_buffer l) (in_frames l) ScratchBuffer
                              (out_frames l)) s1)
                       \<lparr>n_resample := Suc (n_resample s1)\<rparr>
            in Inr (s2, l\<lparr>in_frames := fst r, out_frames := snd r, in_buffer := ScratchBuffer\<rparr>)))
      else Inr (s, l\<lparr>out_frames := in_frames l\<rparr>))"

definition write_sleep_time :: "u32 \<Rightarrow> int \<Rightarrow> u32" where
  "write_sleep_time kernel_frames threshold =
     (let time = (word_of_int (((sint kernel_frames - threshold) * 1000000)
                    div uint MM_FULL_POWER_SAMPLING_RATE) :: u32)
      in if time < MIN_WRITE_SLEEP_US then MIN_WRITE_SLEEP_US else time)"

text \<open>The \<^verbatim>\<open>do ... while\<close> loop of lines 730 to 744. It has no bound of its own: it ends
  when the timestamp query fails or the occupancy is at most the threshold.\<close>

partial_function (option) throttle :: "hw \<Rightarrow> system \<Rightarrow> system option" where
  "throttle h s =
     (let r = pcm_get_htimestamp_r h (n_htimestamp s);
          kernel_frames = pcm_get_buffer_size_r h (n_htimestamp s) - snd r;
          s1 = (emit (PcmGetHtimestamp (pcm (out_stream s))) s)
                 \<lparr>n_htimestamp := Suc (n_htimestamp s)\<rparr>
      in if fst r < 0 then Some s1
         else if sint kernel_frames > write_threshold (out_stream s1) then
           throttle h (emit (Usleep (write_sleep_time kernel_frames
                                        (write_threshold (out_stream s1)))) s1)
         else Some s1)"

definition out_error_sleep :: "u32 \<Rightarrow> u32" where
  "out_error_sleep b =
     (let usecs = ((b * 1000000) div out_frame_size) div out_get_sample_rate
      in if usecs \<ge> 1000000 then 999999 else usecs)"

text \<open>The code after the label \<^verbatim>\<open>exit\<close>, up to the test for a broken pipe.\<close>

definition out_write_exit :: "int \<Rightarrow> system \<Rightarrow> out_locals \<Rightarrow> int \<times> system \<times> out_locals" where
  "out_write_exit ret s l =
     (ret, (if ret \<noteq> 0 then emit (Usleep (out_error_sleep (bytes l))) s else s), l)"

text \<open>Lines 679 to 747 and the code after \<^verbatim>\<open>exit\<close>, entered with the stream started:
  channel reduction, conversion, throttling and the write. \<open>None\<close> when the throttling loop
  never ends.\<close>

definition out_write_data :: "hw \<Rightarrow> system \<Rightarrow> out_locals \<Rightarrow> (int \<times> system \<times> out_locals) option" where
  "out_write_data h s2 l0 =
     (let sco_on = (out_device (adev s2) AND AUDIO_DEVICE_OUT_ALL_SCO \<noteq> 0);
          l1 = (if 2 > sint (channels (pcm_config (out_stream s2)))
                then l0\<lparr>frame_size := frame_size l0 div 2\<rparr> else l0)
      in case out_convert h s2 l1 of
           Inl e \<Rightarrow> Some (out_write_exit (fst e) (snd e) l1)
         | Inr c \<Rightarrow>
           (case (if sco_on then Some (fst c) else throttle h (fst c)) of
              None \<Rightarrow> None
            | Some s4 \<Rightarrow>
              (let ret = pcm_mmap_write_r h (n_write s4);
                   s5 = (emit (PcmMmapWrite (pcm (out_stream s4)) ClientBuffer
                                 (out_frames (snd c) * frame_size (snd c))) s4)
                          \<lparr>n_write := Suc (n_write s4)\<rparr>
               in Some (out_write_exit ret s5 (snd c)))))"

text \<open>One pass from \<^verbatim>\<open>do_over\<close> to the test for a broken pipe: the stream is started when
  it is in standby, and a failed start jumps to \<^verbatim>\<open>exit\<close>.\<close>

definition out_write_pass :: "hw \<Rightarrow> system \<Rightarrow> out_locals \<Rightarrow> (int \<times> system \<times> out_locals) option" where
  "out_write_pass h s0 l0 =
     (if standby (out_stream s0) then
        (let started = start_output_stream h s0; s1 = snd started
         in if fst started \<noteq> 0 then Some (out_write_exit (fst started) s1 l0)
            else out_write_data h (s1\<lparr>out_stream := (out_stream s1)\<lparr>standby := False\<rparr>\<rparr>) l0)
      else out_write_data h s0 l0)"

text \<open>The retry: a broken pipe forces standby and jumps back to \<^verbatim>\<open>do_over\<close>. The result is
  the value returned to the caller and the state; \<open>None\<close> when the call never returns.\<close>

partial_function (option) out_write_from :: "hw \<Rightarrow> system \<Rightarrow> out_locals \<Rightarrow> (u32 \<times> system) option" where
  "out_write_from h s l =
     (case out_write_pass h s l of
        None \<Rightarrow> None
      | Some r \<Rightarrow>
        (if fst r = - EPIPE then out_write_from h (do_out_standby (fst (snd r))) (snd (snd r))
         else Some (bytes (snd (snd r)), fst (snd r))))"

declare throttle.simps [code]
declare out_write_from.simps [code]

definition out_write :: "hw \<Rightarrow> system \<Rightarrow> u32 \<Rightarrow> (u32 \<times> system) option" where
  "out_write h s b = out_write_from h s (out_locals_init b)"


subsection \<open>The read path\<close>

definition store_bytes :: "mem \<Rightarrow> nat \<Rightarrow> byte list \<Rightarrow> mem" where
  "store_bytes m off d = (\<lambda>i. if off \<le> i \<and> i < off + length d then d ! (i - off) else m i)"

definition memset :: "mem \<Rightarrow> byte \<Rightarrow> u32 \<Rightarrow> mem" where
  "memset m c n = (\<lambda>i. if i < unat n then c else m i)"

text \<open>The first \<open>n\<close> bytes of a buffer, as the caller reads them.\<close>

definition delivered :: "mem \<Rightarrow> u32 \<Rightarrow> byte list" where
  "delivered m n = map m [0..<unat n]"

text \<open>\<^verbatim>\<open>dst[i] = src[j]\<close> on \<^verbatim>\<open>int16_t\<close> pointers.\<close>

definition copy16 :: "mem \<Rightarrow> nat \<Rightarrow> mem \<Rightarrow> nat \<Rightarrow> mem" where
  "copy16 dst i src j = dst(2 * i := src (2 * j), 2 * i + 1 := src (2 * j + 1))"

text \<open>The two loops that discard the right channel; the index \<^verbatim>\<open>i * 2\<close> is computed in
  \<^verbatim>\<open>unsigned int\<close>.\<close>

function discard_right_in_place :: "nat \<Rightarrow> nat \<Rightarrow> mem \<Rightarrow> mem" where
  "discard_right_in_place i n m =
     (if i < n then discard_right_in_place (Suc i) n (copy16 m i m (unat ((of_nat i :: u32) * 2))) else m)"
  by pat_completeness auto
termination
  by (relation "measure (\<lambda>(i, n, m). n - i)") auto

function discard_right_to :: "nat \<Rightarrow> nat \<Rightarrow> mem \<Rightarrow> mem \<Rightarrow> mem" where
  "discard_right_to i n src dst =
     (if i < n then discard_right_to (Suc i) n src (copy16 dst i src (unat ((of_nat i :: u32) * 2))) else dst)"
  by pat_completeness auto
termination
  by (relation "measure (\<lambda>(i, n, src, dst). n - i)") auto

text \<open>\<^verbatim>\<open>pcm_read\<close> on the input endpoint: the status and the bytes the endpoint stored, at
  most \<open>count\<close> of them.\<close>

definition pcm_read :: "hw \<Rightarrow> system \<Rightarrow> u32 \<Rightarrow> int \<times> byte list \<times> system" where
  "pcm_read h s count =
     (let r = pcm_read_r h (n_read s)
      in (fst r, take (unat count) (snd r),
          (emit (PcmRead (pcm (in_stream s)) count) s)\<lparr>n_read := Suc (n_read s)\<rparr>))"

text \<open>Lines 465 to 472 of \<^verbatim>\<open>get_next_buffer\<close>.\<close>

definition grant :: "system \<Rightarrow> resampler_buffer \<Rightarrow> int \<times> system \<times> resampler_buffer" where
  "grant s b =
     (let inp = in_stream s
      in (read_status inp, s,
          b\<lparr>frame_count := (if frame_count b > frames_in inp then frames_in inp else frame_count b),
            raw := Some (2 * unat (period_size (pcm_config inp) - frames_in inp))\<rparr>))"

text \<open>The callers of this file never pass a \<^verbatim>\<open>NULL\<close> provider or buffer, so the first test of
  \<^verbatim>\<open>get_next_buffer\<close> and of \<^verbatim>\<open>release_buffer\<close> is not a branch of the model.\<close>

definition get_next_buffer :: "hw \<Rightarrow> system \<Rightarrow> resampler_buffer \<Rightarrow> int \<times> system \<times> resampler_buffer" where
  "get_next_buffer h s b =
     (let inp = in_stream s; cfg = pcm_config inp in
      if pcm inp = None then
        (- ENODEV, s\<lparr>in_stream := inp\<lparr>read_status := - ENODEV\<rparr>\<rparr>, b\<lparr>raw := None, frame_count := 0\<rparr>)
      else if frames_in inp = 0 then
        (let r = pcm_read h s (channels cfg * period_size cfg * in_frame_size);
             st = fst r; s1 = snd (snd r);
             inp1 = (in_stream s1)\<lparr>read_status := st,
                                    buffer := store_bytes (buffer inp) 0 (fst (snd r))\<rparr>
         in if st \<noteq> 0 then (st, s1\<lparr>in_stream := inp1\<rparr>, b\<lparr>raw := None, frame_count := 0\<rparr>)
            else
              (let inp2 = inp1\<lparr>frames_in := period_size cfg\<rparr>;
                   inp3 = (if channels cfg = 2
                           then inp2\<lparr>buffer := discard_right_in_place 1 (unat (frames_in inp2))
                                                  (buffer inp2)\<rparr>
                           else inp2)
               in grant (s1\<lparr>in_stream := inp3\<rparr>) b))
      else grant s b)"

definition release_buffer :: "system \<Rightarrow> resampler_buffer \<Rightarrow> system" where
  "release_buffer s b =
     s\<lparr>in_stream := (in_stream s)\<lparr>frames_in := frames_in (in_stream s) - frame_count b\<rparr>\<rparr>"

text \<open>Running one converter call against the Buffer Provider of this file.\<close>

primrec run_rs :: "rs_run \<Rightarrow> hw \<Rightarrow> system \<Rightarrow> system \<times> u32 \<times> byte list" where
  "run_rs (RsDone n d) h s = (s, n, d)"
| "run_rs (RsGet req k) h s =
     (let r = get_next_buffer h s \<lparr>raw = None, frame_count = req\<rparr>
      in run_rs (k (fst r, snd (snd r))) h (fst (snd r)))"
| "run_rs (RsRelease n r) h s = run_rs r h (release_buffer s \<lparr>raw = None, frame_count = n\<rparr>)"

text \<open>The body of the \<^verbatim>\<open>while\<close> loop of \<^verbatim>\<open>read_frames\<close> up to the test of
  \<^verbatim>\<open>read_status\<close>: the new state, the caller's buffer and \<^verbatim>\<open>frames_rd\<close>.\<close>

definition read_frames_step :: "hw \<Rightarrow> system \<Rightarrow> mem \<Rightarrow> u32 \<Rightarrow> u32 \<Rightarrow> system \<times> mem \<times> u32" where
  "read_frames_step h s buf frames_wr frames_rd =
     (if resampler (in_stream s) then
        (let run = resample_from_provider_r h (n_resample s) frames_rd;
             r = run_rs run h ((emit (ResampleFromProvider frames_rd) s)
                                  \<lparr>n_resample := Suc (n_resample s)\<rparr>)
         in (fst r, store_bytes buf (unat (frames_wr * in_frame_size)) (snd (snd r)), fst (snd r)))
      else
        (let g = get_next_buffer h s \<lparr>raw = None, frame_count = frames_rd\<rparr>;
             s1 = fst (snd g); b = snd (snd g)
         in case raw b of
              None \<Rightarrow> (release_buffer s1 b, buf, frames_rd)
            | Some off \<Rightarrow>
              (release_buffer s1 b,
               store_bytes buf (unat (frames_wr * in_frame_size))
                 (map (buffer (in_stream s1)) [off..<off + unat (frame_count b * in_frame_size)]),
               frame_count b)))"

text \<open>\<^verbatim>\<open>read_frames\<close>, entered with \<^verbatim>\<open>frames_wr\<close>; both counters are \<^verbatim>\<open>ssize_t\<close>. The loop
  ends when enough frames were produced or a read failed; a converter that keeps producing
  nothing keeps it running, which is the result \<open>None\<close>.\<close>

partial_function (option) read_frames_from :: "hw \<Rightarrow> system \<Rightarrow> mem \<Rightarrow> u32 \<Rightarrow> u32 \<Rightarrow> (int \<times> system \<times> mem) option" where
  "read_frames_from h s buf frames frames_wr =
     (if sint frames_wr < sint frames then
        (let step = read_frames_step h s buf frames_wr (frames - frames_wr);
             s1 = fst step
         in if read_status (in_stream s1) \<noteq> 0
            then Some (read_status (in_stream s1), s1, fst (snd step))
            else read_frames_from h s1 (fst (snd step)) frames (frames_wr + snd (snd step)))
      else Some (sint frames_wr, s, buf))"

declare read_frames_from.simps [code]

definition read_frames :: "hw \<Rightarrow> system \<Rightarrow> mem \<Rightarrow> u32 \<Rightarrow> (int \<times> system \<times> mem) option" where
  "read_frames h s buf frames = read_frames_from h s buf frames 0"

text \<open>
  \<^verbatim>\<open>in_read\<close> up to line 960: the start of the stream when it is in standby and the capture
  into the caller's buffer. The result is the value of \<^verbatim>\<open>ret\<close> there, the state and the
  caller's buffer. A negative status of the start is the jump to \<^verbatim>\<open>exit\<close>.
\<close>

definition in_capture :: "hw \<Rightarrow> system \<Rightarrow> mem \<Rightarrow> u32 \<Rightarrow> (int \<times> system \<times> mem) option" where
  "in_capture h s0 buf nbytes =
     (let frames_rq = nbytes div in_frame_size;
          started = (if standby (in_stream s0) then start_input_stream h s0 else (0, s0));
          s1 = snd started;
          s2 = (if standby (in_stream s0) \<and> fst started = 0
                then s1\<lparr>in_stream := (in_stream s1)\<lparr>standby := False\<rparr>\<rparr> else s1)
      in if fst started < 0 then Some (fst started, s2, buf)
         else if resampler (in_stream s2) then read_frames h s2 buf frames_rq
         else if channels (pcm_config (in_stream s2)) = 2 then
           (let r = pcm_read h s2 (nbytes * 2);
                s3 = snd (snd r);
                s4 = s3\<lparr>in_stream := (in_stream s3)
                          \<lparr>buffer := store_bytes (buffer (in_stream s3)) 0 (fst (snd r))\<rparr>\<rparr>
            in Some (fst r, s4, discard_right_to 0 (unat frames_rq) (buffer (in_stream s4)) buf))
         else
           (let r = pcm_read h s2 nbytes
            in Some (fst r, snd (snd r), store_bytes buf 0 (fst (snd r)))))"

text \<open>
  Lines 962 to 978 on the result of the capture. After the jump to \<^verbatim>\<open>exit\<close> the status is
  negative, so the two statements the jump skips would not have changed anything. The division
  by the requested rate traps when that rate is zero.
\<close>

datatype fault = DivisionByZero

definition in_read_finish :: "u32 \<Rightarrow> int \<times> system \<times> mem \<Rightarrow> fault + (u32 \<times> system \<times> mem)" where
  "in_read_finish nbytes c =
     (let ret = (if fst c > 0 then 0 else fst c);
          s = fst (snd c);
          buf = (if ret = 0 \<and> mic_mute (adev s) then memset (snd (snd c)) 0 nbytes else snd (snd c))
      in if ret < 0 then
           (if in_get_sample_rate (in_stream s) = 0 then Inl DivisionByZero
            else Inr (nbytes,
                      emit (Usleep (((nbytes * 1000000) div in_frame_size)
                                      div in_get_sample_rate (in_stream s))) s,
                      buf))
         else Inr (nbytes, s, buf))"

definition in_read :: "hw \<Rightarrow> system \<Rightarrow> mem \<Rightarrow> u32 \<Rightarrow> (fault + (u32 \<times> system \<times> mem)) option" where
  "in_read h s buf nbytes = map_option (in_read_finish nbytes) (in_capture h s buf nbytes)"

subsection \<open>Pull sequences\<close>

text \<open>
  The states a converter call passes through, one after each call of \<^verbatim>\<open>get_next_buffer\<close> or
  \<^verbatim>\<open>release_buffer\<close>, and the rule of the Buffer Provider protocol for the consumer: what it
  releases is part of what the last \<^verbatim>\<open>get_next_buffer\<close> granted and it has not released yet.
\<close>

primrec pull_states :: "rs_run \<Rightarrow> hw \<Rightarrow> system \<Rightarrow> system list" where
  "pull_states (RsDone n d) h s = [s]"
| "pull_states (RsGet req k) h s =
     (let r = get_next_buffer h s \<lparr>raw = None, frame_count = req\<rparr>
      in s # pull_states (k (fst r, snd (snd r))) h (fst (snd r)))"
| "pull_states (RsRelease n r) h s =
     s # pull_states r h (release_buffer s \<lparr>raw = None, frame_count = n\<rparr>)"

primrec releases_granted :: "rs_run \<Rightarrow> hw \<Rightarrow> system \<Rightarrow> u32 \<Rightarrow> bool" where
  "releases_granted (RsDone n d) h s granted = True"
| "releases_granted (RsGet req k) h s granted =
     (let r = get_next_buffer h s \<lparr>raw = None, frame_count = req\<rparr>
      in releases_granted (k (fst r, snd (snd r))) h (fst (snd r)) (frame_count (snd (snd r))))"
| "releases_granted (RsRelease n r) h s granted =
     (n \<le> granted \<and>
      releases_granted r h (release_buffer s \<lparr>raw = None, frame_count = n\<rparr>) (granted - n))"

text \<open>\<^verbatim>\<open>get_next_buffer\<close> reads the endpoint in state \<open>s\<close>: the handle is set and no frame is
  buffered.\<close>

definition reading :: "system \<Rightarrow> bool" where
  "reading s = (pcm (in_stream s) \<noteq> None \<and> frames_in (in_stream s) = 0)"

definition frames_in_bounded :: "system \<Rightarrow> bool" where
  "frames_in_bounded s = (frames_in (in_stream s) \<le> period_size (pcm_config (in_stream s)))"

subsection \<open>The latency formula of the specification\<close>

definition spec_latency :: "stream_out \<Rightarrow> u32" where
  "spec_latency out =
     (period_size (pcm_config out) * period_count (pcm_config out) * 1000)
       div rate (pcm_config out)"

subsection \<open>Example configurations\<close>

text \<open>Collaborators that always succeed: the \<open>k\<close>-th open yields the ready endpoint
  \<open>k + 1\<close>, reads and writes return 0, the timestamp query fails (so nothing is throttled) and the
  converter turns 44100 Hz frames into 48000 Hz frames as far as its output buffer reaches.\<close>

definition example_hw :: hw where
  "example_hw =
     \<lparr>pcm_open_r = (\<lambda>k. OpenReady (Suc k)),
      pcm_mmap_write_r = (\<lambda>k. 0),
      pcm_read_r = (\<lambda>k. (0, [])),
      pcm_get_htimestamp_r = (\<lambda>k. (- 1, 0)),
      pcm_get_buffer_size_r = (\<lambda>k. 0),
      create_resampler_r = (\<lambda>k. 0),
      malloc_r = (\<lambda>k. True),
      resample_from_input_r =
        (\<lambda>k i c. if (i * 48000) div 44100 \<le> c then (i, (i * 48000) div 44100)
                 else ((c * 44100) div 48000, c)),
      resample_from_provider_r = (\<lambda>k n. RsDone n [])\<rparr>"

text \<open>The state after \<^verbatim>\<open>adev_open\<close> and the opening of a standard output stream and of an
  input stream at 44100 Hz: speaker and built-in microphone, both streams in standby.\<close>

definition example_system :: system where
  "example_system =
     \<lparr>adev = \<lparr>out_device = AUDIO_DEVICE_OUT_SPEAKER,
              in_device = AUDIO_DEVICE_IN_BUILTIN_MIC AND NOT AUDIO_DEVICE_BIT_IN,
              mic_mute = False, orientation = 3, low_power_hint = False,
              active_out = False, active_in = False\<rparr>,
      out_stream = \<lparr>pcm = None, pcm_config = pcm_config_out, standby = True, resampler = False,
              scratch_allocated = False, write_threshold = 0, low_power = 0\<rparr>,
      in_stream = \<lparr>pcm = None, pcm_config = pcm_config_in, standby = True, resampler = False,
              requested_rate = 44100, buffer = (\<lambda>i. 0), frames_in = 0, read_status = 0\<rparr>,
      trace = [], n_open = 0, n_write = 0, n_read = 0, n_htimestamp = 0, n_create = 0,
      n_malloc = 0, n_resample = 0\<rparr>"

text \<open>The same with the HDMI output selected.\<close>

definition example_hdmi :: system where
  "example_hdmi = example_system\<lparr>adev := (adev example_system)
     \<lparr>out_device := AUDIO_DEVICE_OUT_AUX_DIGITAL\<rparr>\<rparr>"

text \<open>An endpoint that cannot be opened: \<^verbatim>\<open>pcm_open\<close> returns the object 7 and
  \<^verbatim>\<open>pcm_is_ready\<close> is false for it.\<close>

definition example_hw_open_fails :: hw where
  "example_hw_open_fails = example_hw\<lparr>pcm_open_r := (\<lambda>k. OpenNotReady 7)\<rparr>"


text \<open>A deep-buffer output stream as \<^verbatim>\<open>adev_open_output_stream\<close> creates it.\<close>

definition example_lp_stream :: stream_out where
  "example_lp_stream =
     \<lparr>pcm = None, pcm_config = pcm_config_out_lp, standby = True, resampler = False,
      scratch_allocated = False, write_threshold = 0, low_power = 1\<rparr>"

subsection \<open>Auxiliary notions for the statements\<close>

text \<open>A table entry for which subtracting the IN marker bit clears it: every input entry
  of \<open>dev_names\<close> carries the marker bit.\<close>

definition marked :: "dev_name \<Rightarrow> bool" where
  "marked e = (if output_flag e \<noteq> 0 then True
     else mask' e - AUDIO_DEVICE_BIT_IN = mask' e AND NOT AUDIO_DEVICE_BIT_IN)"

text \<open>The rates of the static endpoint configurations: \<open>pcm_config_out\<close>,
  \<open>pcm_config_out_lp\<close> and \<open>pcm_config_hdmi\<close> for output, \<open>pcm_config_in\<close> and
  \<open>pcm_config_sco\<close> for input. No other value is ever stored in the \<open>rate\<close> of a stream.\<close>

definition configured_out_rate :: "u32 \<Rightarrow> bool" where
  "configured_out_rate r = (r = 44100 \<or> r = 48000)"

definition configured_in_rate :: "u32 \<Rightarrow> bool" where
  "configured_in_rate r = (r = 44100 \<or> r = 8000)"

text \<open>The rate of the endpoint that \<^verbatim>\<open>start_output_stream\<close> (\<^verbatim>\<open>start_input_stream\<close>) is
  about to open in state \<open>s\<close>.\<close>

definition out_start_rate :: "system \<Rightarrow> u32" where
  "out_start_rate s = rate (pcm_config (out_stream (snd (snd (out_geometry s)))))"

definition in_start_rate :: "system \<Rightarrow> u32" where
  "in_start_rate s = rate (pcm_config (in_stream (snd (snd (in_geometry s)))))"



text \<open>What a start function calls after \<^verbatim>\<open>pcm_open\<close> returned \<open>r\<close>, for a stream whose
  converter pointer is set or not.\<close>

definition after_open :: "direction \<Rightarrow> open_result \<Rightarrow> bool \<Rightarrow> event list" where
  "after_open d r rs =
     (case r of OpenNotReady p \<Rightarrow> [PcmClose (Some p)]
      | _ \<Rightarrow> if rs then [ResamplerReset d] else [])"

text \<open>An input stream capturing from the SCO device at 8000 Hz on endpoint 1, the output
  stream in standby; and an output stream playing to HDMI at 48000 Hz on endpoint 1, the input
  stream in standby.\<close>

definition example_sco_capture :: system where
  "example_sco_capture = example_system
     \<lparr>adev := (adev example_system)\<lparr>in_device := 0x8, active_in := True\<rparr>,
      in_stream := (in_stream example_system)
        \<lparr>pcm := Some 1, pcm_config := pcm_config_sco, standby := False\<rparr>,
      trace := [PcmOpen 0 5 PCM_IN pcm_config_sco], n_open := 1\<rparr>"

definition example_hdmi_playback :: system where
  "example_hdmi_playback = example_system
     \<lparr>adev := (adev example_system)\<lparr>out_device := AUDIO_DEVICE_OUT_AUX_DIGITAL,
                                        active_out := True\<rparr>,
      out_stream := (out_stream example_system)
        \<lparr>pcm := Some 1, pcm_config := pcm_config_hdmi, standby := False\<rparr>,
      trace := [PcmOpen 1 1 PCM_OUT pcm_config_hdmi], n_open := 1\<rparr>"



text \<open>A converter call that asks for 100 frames, gives back what it got, asks for 1000 more
  and gives back what it got; and the state of the SCO capture after its first
  \<^verbatim>\<open>get_next_buffer\<close>.\<close>

definition example_pulls :: rs_run where
  "example_pulls =
     RsGet 100 (\<lambda>g. RsRelease (frame_count (snd g))
       (RsGet 1000 (\<lambda>g. RsRelease (frame_count (snd g)) (RsDone 256 []))))"

definition example_after_get :: system where
  "example_after_get =
     fst (snd (get_next_buffer example_hw example_sco_capture \<lparr>raw = None, frame_count = 100\<rparr>))"

text \<open>A muted microphone on the example state, the raw buffer of the input stream still
  holding earlier samples (every byte 1), and an endpoint whose reads fail with \<open>-5\<close> and store
  nothing.\<close>

definition example_muted :: system where
  "example_muted = example_system
     \<lparr>adev := (adev example_system)\<lparr>mic_mute := True\<rparr>,
      in_stream := (in_stream example_system)\<lparr>buffer := (\<lambda>i. 1)\<rparr>\<rparr>"

definition example_hw_read_fails :: hw where
  "example_hw_read_fails = example_hw\<lparr>pcm_read_r := (\<lambda>k. (- 5, []))\<rparr>"

text \<open>What the capture of 4 bytes yields on the muted example, with reads that succeed and
  with reads that fail.\<close>

definition example_capture :: "int \<times> system \<times> mem" where
  "example_capture = the (in_capture example_hw example_muted (\<lambda>i. 9) 4)"

definition example_failed_capture :: "int \<times> system \<times> mem" where
  "example_failed_capture = the (in_capture example_hw_read_fails example_muted (\<lambda>i. 0) 4)"

section \<open>Properties\<close>

subsection \<open>Standby\<close>

lemma do_out_standby_idem: "standby (out_stream s) \<Longrightarrow> do_out_standby s = s"
  by (simp add: do_out_standby_def)

lemma do_in_standby_idem: "standby (in_stream s) \<Longrightarrow> do_in_standby s = s"
  by (simp add: do_in_standby_def)

lemma standby_after_do_out: "standby (out_stream (do_out_standby s))"
  by (simp add: do_out_standby_def emit_def)

lemma standby_after_do_in: "standby (in_stream (do_in_standby s))"
  by (simp add: do_in_standby_def emit_def)

text \<open>
  Claim C10. \<^verbatim>\<open>out_standby\<close> and \<^verbatim>\<open>in_standby\<close> are idempotent: on a stream that is already
  in standby they return 0 and leave the whole state as it is (every field of both streams and of
  the coordinator, and no collaborator is called); they always return 0; and calling one of them
  twice in a row has the effect of calling it once.
\<close>

theorem standby_idempotent:
  "(standby (out_stream s) \<longrightarrow> out_standby s = (0, s)) \<and>
   (standby (in_stream s) \<longrightarrow> in_standby s = (0, s)) \<and>
   fst (out_standby s) = 0 \<and> fst (in_standby s) = 0 \<and>
   out_standby (snd (out_standby s)) = out_standby s \<and>
   in_standby (snd (in_standby s)) = in_standby s"
  by (simp add: out_standby_def in_standby_def do_out_standby_idem do_in_standby_idem
      standby_after_do_out standby_after_do_in)

text \<open>The theorem of C10 on the example state, where both streams are in standby.\<close>

theorem standby_idempotent_witness:
  "standby (out_stream example_system) \<and> out_standby example_system = (0, example_system) \<and>
   standby (in_stream example_system) \<and> in_standby example_system = (0, example_system)"
  using standby_idempotent [of example_system] by (simp add: example_system_def)

subsection \<open>Latency\<close>

text \<open>
  Claim C9 as stated fails on a deep-buffer stream: its geometry gives
  \<open>1920 * 4 * 1000 / 44100 = 174\<close> ms, the code returns 87 ms.
\<close>

theorem out_get_latency_counterexample:
  "out_get_latency example_lp_stream = Some 87 \<and> spec_latency example_lp_stream = 174"
  by code_simp

text \<open>
  Claim C9, amended. For every output stream with a nonzero endpoint rate,
  \<^verbatim>\<open>out_get_latency\<close> returns \<open>(SHORT_PERIOD_SIZE * PLAYBACK_PERIOD_COUNT * 1000) / rate\<close>, that
  is \<open>3840000 / rate\<close>: the short period size and the playback period count are constants of
  the formula, so the result does not depend on the period geometry of the stream, and it is the
  value of the specification's formula when the stream has the short-period geometry.
\<close>

theorem out_get_latency_short_period:
  "rate (pcm_config out) \<noteq> 0 \<Longrightarrow>
     out_get_latency out = Some (3840000 div rate (pcm_config out)) \<and>
     out_get_latency (out\<lparr>pcm_config := (pcm_config out)\<lparr>period_size := p, period_count := c\<rparr>\<rparr>)
       = out_get_latency out \<and>
     (period_size (pcm_config out) = SHORT_PERIOD_SIZE \<and>
      period_count (pcm_config out) = PLAYBACK_PERIOD_COUNT \<longrightarrow>
        out_get_latency out = Some (spec_latency out))"
  by (simp add: out_get_latency_def spec_latency_def SHORT_PERIOD_SIZE_def
      ABE_BASE_FRAME_COUNT_def SHORT_PERIOD_MULTIPLIER_def PLAYBACK_PERIOD_COUNT_def)

text \<open>The amended C9 on the deep-buffer stream and on the standard stream of the example.\<close>

theorem out_get_latency_short_period_witness:
  "rate (pcm_config example_lp_stream) \<noteq> 0 \<and>
   out_get_latency example_lp_stream = Some 87 \<and>
   period_size (pcm_config (out_stream example_system)) = SHORT_PERIOD_SIZE \<and>
   period_count (pcm_config (out_stream example_system)) = PLAYBACK_PERIOD_COUNT \<and>
   out_get_latency (out_stream example_system) = Some (spec_latency (out_stream example_system))"
proof -
  have r1: "rate (pcm_config example_lp_stream) \<noteq> 0"
    by (simp add: example_lp_stream_def pcm_config_out_lp_def OUT_SAMPLING_RATE_def)
  have r2: "rate (pcm_config (out_stream example_system)) \<noteq> 0"
    by (simp add: example_system_def pcm_config_out_def OUT_SAMPLING_RATE_def)
  have g: "period_size (pcm_config (out_stream example_system)) = SHORT_PERIOD_SIZE \<and>
     period_count (pcm_config (out_stream example_system)) = PLAYBACK_PERIOD_COUNT"
    by (simp add: example_system_def pcm_config_out_def)
  have v: "(3840000 :: u32) div rate (pcm_config example_lp_stream) = 87"
    by (simp add: example_lp_stream_def pcm_config_out_lp_def OUT_SAMPLING_RATE_def)
  have a: "out_get_latency example_lp_stream = Some 87"
    using out_get_latency_short_period [OF r1, of 0 0] v by simp
  have b: "out_get_latency (out_stream example_system)
      = Some (spec_latency (out_stream example_system))"
    using out_get_latency_short_period [OF r2, of 0 0] g by blast
  show ?thesis
    using r1 a g b by blast
qed

subsection \<open>A write that cannot open the endpoint\<close>

lemma bytes_init: "bytes (out_locals_init b) = b"
  by (simp add: out_locals_init_def)

lemma start_output_stream_not_ready:
  assumes "pcm_open_r h (n_open s) = OpenNotReady p"
  shows "fst (start_output_stream h s) = - ENOMEM"
    and "standby (out_stream (snd (start_output_stream h s))) = standby (out_stream s)"
    and "n_write (snd (start_output_stream h s)) = n_write s"
  using assms
  by (simp_all add: start_output_stream_def out_geometry_def do_in_standby_def emit_def Let_def
      split: prod.splits)

text \<open>
  Claim C3 as stated fails: with an endpoint that cannot be opened,
  \<^verbatim>\<open>start_output_stream\<close> returns \<open>-ENOMEM\<close>, but \<^verbatim>\<open>out_write\<close> returns the requested 4096
  bytes.
\<close>

theorem out_write_open_failure_counterexample:
  "fst (start_output_stream example_hw_open_fails example_system) = - ENOMEM \<and>
   map_option fst (out_write example_hw_open_fails example_system 4096) = Some 4096"
  by code_simp

lemma out_error_sleep_play_time:
  assumes "unat b \<le> 4294"
  shows "unat (out_error_sleep b) = ((unat b * 1000000) div 4) div 44100"
proof -
  have m: "unat (b * 1000000) = unat b * 1000000"
  proof -
    have "unat b * unat (1000000 :: u32) < 2 ^ LENGTH(32)"
      using assms by simp
    then have "unat (b * 1000000) = unat b * unat (1000000 :: u32)"
      by (rule unat_mult_lem [THEN iffD1])
    then show ?thesis by simp
  qed
  have d: "unat (((b * 1000000) div 4) div 44100) = ((unat b * 1000000) div 4) div 44100"
    by (simp add: unat_div m)
  have "((unat b * 1000000) div 4) div 44100 < 1000000"
    using assms by simp
  then have "\<not> (((b * 1000000) div 4) div 44100 \<ge> 1000000)"
    using d by (simp add: word_le_nat_alt)
  then show ?thesis
    using d by (simp add: out_error_sleep_def Let_def out_frame_size_def out_get_sample_rate_def
        OUT_SAMPLING_RATE_def)
qed

text \<open>
  Claim C3, amended. When \<^verbatim>\<open>out_write\<close> finds the stream in standby and the endpoint opens
  but is not ready, \<^verbatim>\<open>start_output_stream\<close> returns \<open>-ENOMEM\<close>; \<^verbatim>\<open>out_write\<close> absorbs that
  status: it calls \<^verbatim>\<open>usleep\<close> once, with \<open>bytes * 1000000\<close> computed in 32-bit unsigned
  arithmetic, divided by the frame size 4 and by 44100 and capped at 999999 microseconds (the
  play time of the requested bytes as long as \<open>bytes \<le> 4294\<close>), returns the requested byte
  count, writes nothing to the endpoint, and the standby flag of the stream stays set.
\<close>

theorem out_write_open_failure:
  assumes "standby (out_stream s)" and "pcm_open_r h (n_open s) = OpenNotReady p"
  shows "fst (start_output_stream h s) = - ENOMEM \<and>
         out_write h s b
           = Some (b, emit (Usleep (out_error_sleep b)) (snd (start_output_stream h s))) \<and>
         standby (out_stream (emit (Usleep (out_error_sleep b)) (snd (start_output_stream h s)))) \<and>
         n_write (emit (Usleep (out_error_sleep b)) (snd (start_output_stream h s))) = n_write s \<and>
         out_error_sleep b =
           (if ((b * 1000000) div 4) div 44100 \<ge> 1000000 then 999999
            else ((b * 1000000) div 4) div 44100) \<and>
         (unat b \<le> 4294 \<longrightarrow>
            unat (out_error_sleep b) = ((unat b * 1000000) div 4) div 44100)"
proof -
  note f = start_output_stream_not_ready [OF assms(2)]
  have pass: "out_write_pass h s (out_locals_init b)
      = Some (- ENOMEM, emit (Usleep (out_error_sleep b)) (snd (start_output_stream h s)),
              out_locals_init b)"
    using assms(1) f(1)
    by (simp add: out_write_pass_def out_write_exit_def ENOMEM_def out_locals_init_def)
  have w: "out_write h s b
      = Some (b, emit (Usleep (out_error_sleep b)) (snd (start_output_stream h s)))"
    unfolding out_write_def
    by (subst out_write_from.simps) (simp add: pass ENOMEM_def EPIPE_def bytes_init)
  have d: "out_error_sleep b =
           (if ((b * 1000000) div 4) div 44100 \<ge> 1000000 then 999999
            else ((b * 1000000) div 4) div 44100)"
    by (simp add: out_error_sleep_def Let_def out_frame_size_def out_get_sample_rate_def
        OUT_SAMPLING_RATE_def)
  have st: "standby (out_stream (emit (Usleep (out_error_sleep b)) (snd (start_output_stream h s))))"
    and nw: "n_write (emit (Usleep (out_error_sleep b)) (snd (start_output_stream h s))) = n_write s"
    using f assms(1) by (simp_all add: emit_def)
  show ?thesis
    using f(1) w st nw d out_error_sleep_play_time [of b] by blast
qed

text \<open>The amended C3 on the example: standby stream, endpoint object 7 never ready, 4096
  bytes, which play in 23219 microseconds.\<close>

theorem out_write_open_failure_witness:
  "standby (out_stream example_system) \<and>
   pcm_open_r example_hw_open_fails (n_open example_system) = OpenNotReady 7 \<and>
   unat (4096 :: u32) \<le> 4294 \<and>
   out_write example_hw_open_fails example_system 4096
     = Some (4096, emit (Usleep (out_error_sleep 4096))
                     (snd (start_output_stream example_hw_open_fails example_system))) \<and>
   unat (out_error_sleep 4096) = ((unat (4096 :: u32) * 1000000) div 4) div 44100 \<and>
   out_error_sleep 4096 = 23219"
proof -
  have a: "standby (out_stream example_system)" by code_simp
  have b: "pcm_open_r example_hw_open_fails (n_open example_system) = OpenNotReady 7"
    by code_simp
  have c: "unat (4096 :: u32) \<le> 4294" by simp
  have v: "out_error_sleep 4096 = 23219" by code_simp
  note t = out_write_open_failure [OF a b, of 4096]
  from t have w: "out_write example_hw_open_fails example_system 4096
     = Some (4096, emit (Usleep (out_error_sleep 4096))
                     (snd (start_output_stream example_hw_open_fails example_system)))"
    by blast
  from t c have u: "unat (out_error_sleep 4096) = ((unat (4096 :: u32) * 1000000) div 4) div 44100"
    by blast
  show ?thesis
    using a b c w u v by blast
qed

subsection \<open>The handle after a failed open\<close>

text \<open>
  Claim C6 says that the endpoint handle is null exactly when the stream is in standby, also
  after a failed open. On the code, a write (a read) on a standby stream whose endpoint opens
  but is not ready ends with the stream in standby and the handle still pointing to the closed
  endpoint object 7.
\<close>

theorem failed_open_leaves_handle:
  "map_option (\<lambda>r. (standby (out_stream (snd r)), pcm (out_stream (snd r))))
     (out_write example_hw_open_fails example_system 4096) = Some (True, Some 7) \<and>
   map_option (map_sum id (\<lambda>r. (standby (in_stream (fst (snd r))), pcm (in_stream (fst (snd r))))))
     (in_read example_hw_open_fails example_system (\<lambda>i. 0) 1920) = Some (Inr (True, Some 7))"
  by code_simp

subsection \<open>The block handed to the endpoint\<close>

text \<open>
  Claim C1 says that on a converting stream the block written to the endpoint is the converted
  block in the scratch buffer. On the code, a write of 4096 bytes (1024 frames) to the HDMI
  endpoint converts into the scratch buffer and then hands the caller's buffer to
  \<^verbatim>\<open>pcm_mmap_write\<close>, with the byte count of the converted block (1114 frames, 4456 bytes).
\<close>

theorem out_write_hdmi_writes_client_buffer:
  "map_option (\<lambda>r. trace (snd r)) (out_write example_hw example_hdmi 4096) =
     Some [PcmOpen 1 1 PCM_OUT pcm_config_hdmi,
           CreateResampler 44100 48000 2, Malloc 7680,
           ResampleFromInput ClientBuffer 1024 ScratchBuffer 1920,
           PcmGetHtimestamp (Some 1),
           PcmMmapWrite (Some 1) ClientBuffer 4456]"
  by code_simp

subsection \<open>Device routing\<close>

lemma not_bit_in: "NOT AUDIO_DEVICE_BIT_IN = (mask 31 :: u32)"
  by (simp add: AUDIO_DEVICE_BIT_IN_def mask_eq_exp_minus_1)

lemma sub_bit_in_low: "(x - AUDIO_DEVICE_BIT_IN) AND mask 31 = (x :: u32) AND mask 31"
proof -
  have z: "AUDIO_DEVICE_BIT_IN AND mask 31 = (0 :: u32)"
    by (simp add: AUDIO_DEVICE_BIT_IN_def mask_eq_exp_minus_1)
  have "(x - AUDIO_DEVICE_BIT_IN) AND mask 31 = (x - (AUDIO_DEVICE_BIT_IN AND mask 31)) AND mask 31"
    by (simp only: mask_eqs)
  then show ?thesis by (simp add: z)
qed

lemma input_match_eq:
  assumes "m - AUDIO_DEVICE_BIT_IN = m AND NOT AUDIO_DEVICE_BIT_IN"
  shows "(x - AUDIO_DEVICE_BIT_IN) AND (m - AUDIO_DEVICE_BIT_IN)
       = (x AND NOT AUDIO_DEVICE_BIT_IN) AND (m AND NOT AUDIO_DEVICE_BIT_IN)"
proof -
  have "(x - AUDIO_DEVICE_BIT_IN) AND (m - AUDIO_DEVICE_BIT_IN)
      = ((x - AUDIO_DEVICE_BIT_IN) AND mask 31) AND m"
    by (simp add: assms not_bit_in and.assoc and.commute and.left_commute)
  also have "\<dots> = (x AND mask 31) AND m"
    by (simp only: sub_bit_in_low)
  also have "\<dots> = (x AND NOT AUDIO_DEVICE_BIT_IN) AND (m AND NOT AUDIO_DEVICE_BIT_IN)"
    by (simp add: not_bit_in and.assoc and.commute and.left_commute)
  finally show ?thesis .
qed

lemma select_loop_calls:
  "list_all marked es \<Longrightarrow>
   snd (snd (select_loop es od idv (a, b, calls)))
     = calls @ map (\<lambda>e. ApplyPath (name e)) (filter (spec_entry_matches od idv) es)"
proof (induction es arbitrary: a b calls)
  case Nil
  then show ?case by simp
next
  case (Cons e es)
  then have m: "marked e" and rest: "list_all marked es" by simp_all
  show ?case
  proof (cases "output_flag e \<noteq> 0")
    case True
    then show ?thesis
      using Cons.IH [OF rest] by (simp add: spec_entry_matches_def)
  next
    case False
    with m have "mask' e - AUDIO_DEVICE_BIT_IN = mask' e AND NOT AUDIO_DEVICE_BIT_IN"
      by (simp add: marked_def)
    from input_match_eq [OF this, of idv] False show ?thesis
      using Cons.IH [OF rest] by (simp add: spec_entry_matches_def)
  qed
qed

lemma dev_names_marked: "list_all marked dev_names"
  by (simp add: dev_names_def marked_def AUDIO_DEVICE_BIT_IN_def
      AUDIO_DEVICE_IN_COMMUNICATION_def AUDIO_DEVICE_IN_AMBIENT_def
      AUDIO_DEVICE_IN_BUILTIN_MIC_def AUDIO_DEVICE_IN_WIRED_HEADSET_def
      AUDIO_DEVICE_IN_AUX_DIGITAL_def AUDIO_DEVICE_IN_BACK_MIC_def)

text \<open>
  Claim C5. For every pair of output and input device bitmasks, \<^verbatim>\<open>select_devices\<close> resets the
  mixer, applies the path of every entry of the table that matches, in table order and over the
  whole table, and commits; an output entry matches iff the output bitmask ANDed with its mask
  is nonzero, an input entry iff the input bitmask and its mask, each with the IN marker bit
  cleared, have a nonzero AND.
\<close>

theorem select_devices_applies_every_match:
  "trace (select_devices s) =
     trace s @ [ResetMixerState] @
     map (\<lambda>e. ApplyPath (name e))
       (filter (spec_entry_matches (out_device (adev s)) (in_device (adev s))) dev_names) @
     [UpdateMixerState]"
  by (simp add: select_devices_def select_loop_calls [OF dev_names_marked])


text \<open>The theorem of C5 on the example state: speaker and built-in microphone.\<close>

theorem select_devices_applies_every_match_witness:
  "trace (select_devices example_system) =
     [ResetMixerState, ApplyPath ''speaker'', ApplyPath ''builtin-mic'', UpdateMixerState]"
proof -
  have "trace example_system @ [ResetMixerState] @
     map (\<lambda>e. ApplyPath (name e))
       (filter (spec_entry_matches (out_device (adev example_system))
                  (in_device (adev example_system))) dev_names) @
     [UpdateMixerState]
     = [ResetMixerState, ApplyPath ''speaker'', ApplyPath ''builtin-mic'', UpdateMixerState]"
    by code_simp
  with select_devices_applies_every_match [of example_system] show ?thesis by simp
qed

subsection \<open>Rate families\<close>

lemma rate_mods:
  "(44100 :: u32) mod 8000 = 4100" "(44100 :: u32) mod 11025 = 0"
  "(48000 :: u32) mod 8000 = 0" "(48000 :: u32) mod 11025 = 3900"
  "(8000 :: u32) mod 8000 = 0" "(8000 :: u32) mod 11025 = 8000"
  by code_simp+

lemma rate_conflict_out_in:
  assumes "configured_out_rate a" and "configured_in_rate b"
  shows "rate_conflict a b = incompatible_family a b"
    and "rate_conflict b a = incompatible_family b a"
proof -
  from assms have "(a = 44100 \<or> a = 48000) \<and> (b = 44100 \<or> b = 8000)"
    by (simp add: configured_out_rate_def configured_in_rate_def)
  then show "rate_conflict a b = incompatible_family a b"
    and "rate_conflict b a = incompatible_family b a"
    unfolding rate_conflict_def incompatible_family_def
    by (elim conjE disjE; simp only: rate_mods; simp)+
qed

lemma out_geometry_frame:
  "in_stream (snd (snd (out_geometry s))) = in_stream s"
  "adev (snd (snd (out_geometry s))) = adev s"
  "trace (snd (snd (out_geometry s))) = trace s"
  "n_open (snd (snd (out_geometry s))) = n_open s"
  "resampler (out_stream (snd (snd (out_geometry s)))) = resampler (out_stream s)"
  by (simp_all add: out_geometry_def Let_def)

lemma in_geometry_frame:
  "out_stream (snd (snd (in_geometry s))) = out_stream s"
  "adev (snd (snd (in_geometry s))) = adev s"
  "trace (snd (snd (in_geometry s))) = trace s"
  "n_open (snd (snd (in_geometry s))) = n_open s"
  "resampler (in_stream (snd (snd (in_geometry s)))) = resampler (in_stream s)"
  by (simp_all add: in_geometry_def Let_def)

lemma start_output_forces_input:
  assumes "active_in (adev s)" and "\<not> standby (in_stream s)"
    and "rate_conflict (rate (pcm_config (out_stream (snd (snd (out_geometry s))))))
           (rate (pcm_config (in_stream s)))"
  shows "trace (snd (start_output_stream h s)) =
           trace s @ PcmClose (pcm (in_stream s)) #
             PcmOpen (fst (out_geometry s)) (fst (snd (out_geometry s))) PCM_OUT
               (pcm_config (out_stream (snd (snd (out_geometry s))))) #
             after_open PCM_OUT (pcm_open_r h (n_open s)) (resampler (out_stream s))"
    and "standby (in_stream (snd (start_output_stream h s)))"
    and "pcm (in_stream (snd (start_output_stream h s))) = None"
    and "\<not> active_in (adev (snd (start_output_stream h s)))"
proof -
  obtain card device s1 where g: "out_geometry s = (card, device, s1)"
    by (cases "out_geometry s") auto
  have fr: "in_stream s1 = in_stream s" "adev s1 = adev s" "trace s1 = trace s"
    "n_open s1 = n_open s" "resampler (out_stream s1) = resampler (out_stream s)"
    using out_geometry_frame [of s] by (simp_all add: g)
  have c: "rate_conflict (rate (pcm_config (out_stream s1))) (rate (pcm_config (in_stream s)))"
    using assms(3) by (simp add: g)
  show "trace (snd (start_output_stream h s)) =
           trace s @ PcmClose (pcm (in_stream s)) #
             PcmOpen (fst (out_geometry s)) (fst (snd (out_geometry s))) PCM_OUT
               (pcm_config (out_stream (snd (snd (out_geometry s))))) #
             after_open PCM_OUT (pcm_open_r h (n_open s)) (resampler (out_stream s))"
    using assms(1,2) c fr
    by (cases "pcm_open_r h (n_open s)")
       (simp_all add: start_output_stream_def g do_in_standby_def emit_def Let_def after_open_def)
  show "standby (in_stream (snd (start_output_stream h s)))"
    using assms(1,2) c fr
    by (cases "pcm_open_r h (n_open s)")
       (simp_all add: start_output_stream_def g do_in_standby_def emit_def Let_def)
  show "pcm (in_stream (snd (start_output_stream h s))) = None"
    using assms(1,2) c fr
    by (cases "pcm_open_r h (n_open s)")
       (simp_all add: start_output_stream_def g do_in_standby_def emit_def Let_def)
  show "\<not> active_in (adev (snd (start_output_stream h s)))"
    using assms(1,2) c fr
    by (cases "pcm_open_r h (n_open s)")
       (simp_all add: start_output_stream_def g do_in_standby_def emit_def Let_def)
qed


lemma start_input_forces_output:
  assumes "active_out (adev s)" and "\<not> standby (out_stream s)"
    and "rate_conflict (rate (pcm_config (in_stream (snd (snd (in_geometry s))))))
           (rate (pcm_config (out_stream s)))"
  shows "trace (snd (start_input_stream h s)) =
           trace s @ PcmClose (pcm (out_stream s)) #
             PcmOpen (fst (in_geometry s)) (fst (snd (in_geometry s))) PCM_IN
               (pcm_config (in_stream (snd (snd (in_geometry s))))) #
             after_open PCM_IN (pcm_open_r h (n_open s)) (resampler (in_stream s))"
    and "standby (out_stream (snd (start_input_stream h s)))"
    and "pcm (out_stream (snd (start_input_stream h s))) = None"
    and "\<not> active_out (adev (snd (start_input_stream h s)))"
proof -
  obtain card device s1 where g: "in_geometry s = (card, device, s1)"
    by (cases "in_geometry s") auto
  have fr: "out_stream s1 = out_stream s" "adev s1 = adev s" "trace s1 = trace s"
    "n_open s1 = n_open s" "resampler (in_stream s1) = resampler (in_stream s)"
    using in_geometry_frame [of s] by (simp_all add: g)
  have c: "rate_conflict (rate (pcm_config (in_stream s1))) (rate (pcm_config (out_stream s)))"
    using assms(3) by (simp add: g)
  show "trace (snd (start_input_stream h s)) =
           trace s @ PcmClose (pcm (out_stream s)) #
             PcmOpen (fst (in_geometry s)) (fst (snd (in_geometry s))) PCM_IN
               (pcm_config (in_stream (snd (snd (in_geometry s))))) #
             after_open PCM_IN (pcm_open_r h (n_open s)) (resampler (in_stream s))"
    using assms(1,2) c fr
    by (cases "pcm_open_r h (n_open s)")
       (simp_all add: start_input_stream_def g do_out_standby_def emit_def Let_def after_open_def)
  show "standby (out_stream (snd (start_input_stream h s)))"
    using assms(1,2) c fr
    by (cases "pcm_open_r h (n_open s)")
       (simp_all add: start_input_stream_def g do_out_standby_def emit_def Let_def)
  show "pcm (out_stream (snd (start_input_stream h s))) = None"
    using assms(1,2) c fr
    by (cases "pcm_open_r h (n_open s)")
       (simp_all add: start_input_stream_def g do_out_standby_def emit_def Let_def)
  show "\<not> active_out (adev (snd (start_input_stream h s)))"
    using assms(1,2) c fr
    by (cases "pcm_open_r h (n_open s)")
       (simp_all add: start_input_stream_def g do_out_standby_def emit_def Let_def)
qed

lemma in_start_rate_configured: "configured_in_rate (in_start_rate s)"
  by (simp add: in_start_rate_def in_geometry_def configured_in_rate_def Let_def
      pcm_config_sco_def pcm_config_in_def OUT_SAMPLING_RATE_def SCO_SAMPLING_RATE_def)

lemma out_start_rate_configured:
  "configured_out_rate (rate (pcm_config (out_stream s))) \<Longrightarrow> configured_out_rate (out_start_rate s)"
  by (simp add: out_start_rate_def out_geometry_def configured_out_rate_def Let_def
      pcm_config_hdmi_def)

lemma start_output_stream_rate:
  "configured_out_rate (rate (pcm_config (out_stream s))) \<Longrightarrow>
     configured_out_rate (rate (pcm_config (out_stream (snd (start_output_stream h s)))))"
  by (simp add: start_output_stream_def out_geometry_def do_in_standby_def emit_def Let_def
      configured_out_rate_def pcm_config_hdmi_def split: open_result.splits)

lemma start_input_stream_rate:
  "configured_in_rate (rate (pcm_config (in_stream (snd (start_input_stream h s)))))"
  by (simp add: start_input_stream_def in_geometry_def do_out_standby_def emit_def Let_def
      configured_in_rate_def pcm_config_sco_def pcm_config_in_def OUT_SAMPLING_RATE_def
      SCO_SAMPLING_RATE_def split: open_result.splits)

text \<open>
  Claim C4. When \<^verbatim>\<open>start_output_stream\<close> is about to open an endpoint while the input stream is
  active, and the two rates (each one of the rates the configurations give to its direction)
  are of incompatible families - one is a multiple of 8000 and the other is not, or one is a
  multiple of 11025 and the other is not - then the input stream is forced into standby before
  the open: the calls of the start are exactly one \<^verbatim>\<open>pcm_close\<close> of the input endpoint, then
  the \<^verbatim>\<open>pcm_open\<close>, then what follows the open; and the input stream ends in standby with a
  null handle and the coordinator's reference cleared. The same holds with the directions
  exchanged for \<^verbatim>\<open>start_input_stream\<close>.
\<close>

theorem start_forces_incompatible_stream:
  "(active_in (adev s) \<and> \<not> standby (in_stream s) \<and>
    configured_out_rate (out_start_rate s) \<and>
    configured_in_rate (rate (pcm_config (in_stream s))) \<and>
    incompatible_family (out_start_rate s) (rate (pcm_config (in_stream s))) \<longrightarrow>
      trace (snd (start_output_stream h s)) =
        trace s @ PcmClose (pcm (in_stream s)) #
          PcmOpen (fst (out_geometry s)) (fst (snd (out_geometry s))) PCM_OUT
            (pcm_config (out_stream (snd (snd (out_geometry s))))) #
          after_open PCM_OUT (pcm_open_r h (n_open s)) (resampler (out_stream s)) \<and>
      standby (in_stream (snd (start_output_stream h s))) \<and>
      pcm (in_stream (snd (start_output_stream h s))) = None \<and>
      \<not> active_in (adev (snd (start_output_stream h s)))) \<and>
   (active_out (adev s) \<and> \<not> standby (out_stream s) \<and>
    configured_out_rate (rate (pcm_config (out_stream s))) \<and>
    incompatible_family (in_start_rate s) (rate (pcm_config (out_stream s))) \<longrightarrow>
      trace (snd (start_input_stream h s)) =
        trace s @ PcmClose (pcm (out_stream s)) #
          PcmOpen (fst (in_geometry s)) (fst (snd (in_geometry s))) PCM_IN
            (pcm_config (in_stream (snd (snd (in_geometry s))))) #
          after_open PCM_IN (pcm_open_r h (n_open s)) (resampler (in_stream s)) \<and>
      standby (out_stream (snd (start_input_stream h s))) \<and>
      pcm (out_stream (snd (start_input_stream h s))) = None \<and>
      \<not> active_out (adev (snd (start_input_stream h s))))"
proof (intro conjI impI)
  assume a: "active_in (adev s) \<and> \<not> standby (in_stream s) \<and>
    configured_out_rate (out_start_rate s) \<and>
    configured_in_rate (rate (pcm_config (in_stream s))) \<and>
    incompatible_family (out_start_rate s) (rate (pcm_config (in_stream s)))"
  then have "rate_conflict (out_start_rate s) (rate (pcm_config (in_stream s)))"
    using rate_conflict_out_in(1) by blast
  then have c: "rate_conflict (rate (pcm_config (out_stream (snd (snd (out_geometry s))))))
           (rate (pcm_config (in_stream s)))"
    by (simp add: out_start_rate_def)
  from a have p: "active_in (adev s)" "\<not> standby (in_stream s)" by simp_all
  note r = start_output_forces_input [OF p c, of h]
  show "trace (snd (start_output_stream h s)) =
        trace s @ PcmClose (pcm (in_stream s)) #
          PcmOpen (fst (out_geometry s)) (fst (snd (out_geometry s))) PCM_OUT
            (pcm_config (out_stream (snd (snd (out_geometry s))))) #
          after_open PCM_OUT (pcm_open_r h (n_open s)) (resampler (out_stream s))"
    by (rule r(1))
  show "standby (in_stream (snd (start_output_stream h s)))" by (rule r(2))
  show "pcm (in_stream (snd (start_output_stream h s))) = None" by (rule r(3))
  show "\<not> active_in (adev (snd (start_output_stream h s)))" by (rule r(4))
next
  assume a: "active_out (adev s) \<and> \<not> standby (out_stream s) \<and>
    configured_out_rate (rate (pcm_config (out_stream s))) \<and>
    incompatible_family (in_start_rate s) (rate (pcm_config (out_stream s)))"
  then have "rate_conflict (in_start_rate s) (rate (pcm_config (out_stream s)))"
    using rate_conflict_out_in(2) in_start_rate_configured by blast
  then have c: "rate_conflict (rate (pcm_config (in_stream (snd (snd (in_geometry s))))))
           (rate (pcm_config (out_stream s)))"
    by (simp add: in_start_rate_def)
  from a have p: "active_out (adev s)" "\<not> standby (out_stream s)" by simp_all
  note r = start_input_forces_output [OF p c, of h]
  show "trace (snd (start_input_stream h s)) =
        trace s @ PcmClose (pcm (out_stream s)) #
          PcmOpen (fst (in_geometry s)) (fst (snd (in_geometry s))) PCM_IN
            (pcm_config (in_stream (snd (snd (in_geometry s))))) #
          after_open PCM_IN (pcm_open_r h (n_open s)) (resampler (in_stream s))"
    by (rule r(1))
  show "standby (out_stream (snd (start_input_stream h s)))" by (rule r(2))
  show "pcm (out_stream (snd (start_input_stream h s))) = None" by (rule r(3))
  show "\<not> active_out (adev (snd (start_input_stream h s)))" by (rule r(4))
qed

text \<open>The theorem of C4 on an output start during an SCO capture (44100 against 8000) and on
  an input start during HDMI playback (44100 against 48000).\<close>

theorem start_forces_incompatible_stream_witness:
  "active_in (adev example_sco_capture) \<and> \<not> standby (in_stream example_sco_capture) \<and>
   configured_out_rate (out_start_rate example_sco_capture) \<and>
   configured_in_rate (rate (pcm_config (in_stream example_sco_capture))) \<and>
   incompatible_family (out_start_rate example_sco_capture)
     (rate (pcm_config (in_stream example_sco_capture))) \<and>
   trace (snd (start_output_stream example_hw example_sco_capture)) =
     [PcmOpen 0 5 PCM_IN pcm_config_sco, PcmClose (Some 1),
      PcmOpen 0 1 PCM_OUT (pcm_config_out\<lparr>start_threshold := 1920, avail_min := 960\<rparr>)] \<and>
   standby (in_stream (snd (start_output_stream example_hw example_sco_capture))) \<and>
   active_out (adev example_hdmi_playback) \<and> \<not> standby (out_stream example_hdmi_playback) \<and>
   configured_out_rate (rate (pcm_config (out_stream example_hdmi_playback))) \<and>
   incompatible_family (in_start_rate example_hdmi_playback)
     (rate (pcm_config (out_stream example_hdmi_playback))) \<and>
   trace (snd (start_input_stream example_hw example_hdmi_playback)) =
     [PcmOpen 1 1 PCM_OUT pcm_config_hdmi, PcmClose (Some 1),
      PcmOpen 0 3 PCM_IN pcm_config_in] \<and>
   standby (out_stream (snd (start_input_stream example_hw example_hdmi_playback)))"
proof -
  have h1: "active_in (adev example_sco_capture) \<and> \<not> standby (in_stream example_sco_capture) \<and>
   configured_out_rate (out_start_rate example_sco_capture) \<and>
   configured_in_rate (rate (pcm_config (in_stream example_sco_capture))) \<and>
   incompatible_family (out_start_rate example_sco_capture)
     (rate (pcm_config (in_stream example_sco_capture)))"
    by code_simp
  have h2: "active_out (adev example_hdmi_playback) \<and> \<not> standby (out_stream example_hdmi_playback) \<and>
   configured_out_rate (rate (pcm_config (out_stream example_hdmi_playback))) \<and>
   incompatible_family (in_start_rate example_hdmi_playback)
     (rate (pcm_config (out_stream example_hdmi_playback)))"
    by code_simp
  have e1: "trace example_sco_capture @ PcmClose (pcm (in_stream example_sco_capture)) #
          PcmOpen (fst (out_geometry example_sco_capture)) (fst (snd (out_geometry example_sco_capture)))
            PCM_OUT (pcm_config (out_stream (snd (snd (out_geometry example_sco_capture))))) #
          after_open PCM_OUT (pcm_open_r example_hw (n_open example_sco_capture))
            (resampler (out_stream example_sco_capture))
     = [PcmOpen 0 5 PCM_IN pcm_config_sco, PcmClose (Some 1),
        PcmOpen 0 1 PCM_OUT (pcm_config_out\<lparr>start_threshold := 1920, avail_min := 960\<rparr>)]"
    by code_simp
  have e2: "trace example_hdmi_playback @ PcmClose (pcm (out_stream example_hdmi_playback)) #
          PcmOpen (fst (in_geometry example_hdmi_playback)) (fst (snd (in_geometry example_hdmi_playback)))
            PCM_IN (pcm_config (in_stream (snd (snd (in_geometry example_hdmi_playback))))) #
          after_open PCM_IN (pcm_open_r example_hw (n_open example_hdmi_playback))
            (resampler (in_stream example_hdmi_playback))
     = [PcmOpen 1 1 PCM_OUT pcm_config_hdmi, PcmClose (Some 1),
        PcmOpen 0 3 PCM_IN pcm_config_in]"
    by code_simp
  show ?thesis
    using start_forces_incompatible_stream [of example_sco_capture example_hw]
      start_forces_incompatible_stream [of example_hdmi_playback example_hw]
      h1 h2 e1 e2
    by simp
qed

subsection \<open>Underrun recovery\<close>





























subsection \<open>The Buffer Provider\<close>

lemma get_next_buffer_config:
  "pcm_config (in_stream (fst (snd (get_next_buffer h s b)))) = pcm_config (in_stream s)"
  by (simp add: get_next_buffer_def grant_def pcm_read_def Let_def emit_def)

lemma get_next_buffer_reads:
  "n_read (fst (snd (get_next_buffer h s b))) = (if reading s then Suc (n_read s) else n_read s)"
  "trace (fst (snd (get_next_buffer h s b))) =
     (if reading s
      then trace s @ [PcmRead (pcm (in_stream s))
                        (channels (pcm_config (in_stream s)) * period_size (pcm_config (in_stream s))
                           * in_frame_size)]
      else trace s)"
  by (simp_all add: get_next_buffer_def grant_def pcm_read_def Let_def emit_def reading_def)

lemma get_next_buffer_refill:
  "reading s \<Longrightarrow> fst (pcm_read_r h (n_read s)) = 0 \<Longrightarrow>
     frames_in (in_stream (fst (snd (get_next_buffer h s b)))) = period_size (pcm_config (in_stream s))"
  by (auto simp add: get_next_buffer_def grant_def pcm_read_def Let_def emit_def reading_def)

lemma get_next_buffer_clamp:
  "frame_count (snd (snd (get_next_buffer h s b))) \<le> frames_in (in_stream (fst (snd (get_next_buffer h s b))))"
  "frame_count (snd (snd (get_next_buffer h s b))) \<le> frame_count b"
  by (auto simp add: get_next_buffer_def grant_def pcm_read_def Let_def emit_def)

lemma get_next_buffer_bounded:
  "frames_in_bounded s \<Longrightarrow> frames_in_bounded (fst (snd (get_next_buffer h s b)))"
  by (auto simp add: frames_in_bounded_def get_next_buffer_def grant_def pcm_read_def Let_def emit_def)

lemma release_buffer_frames_in:
  "frames_in (in_stream (release_buffer s b)) = frames_in (in_stream s) - frame_count b"
  "pcm_config (in_stream (release_buffer s b)) = pcm_config (in_stream s)"
  by (simp_all add: release_buffer_def)

lemma release_no_wrap:
  "frame_count b \<le> frames_in (in_stream s) \<Longrightarrow>
     unat (frames_in (in_stream (release_buffer s b)))
       = unat (frames_in (in_stream s)) - unat (frame_count b)"
  by (simp add: release_buffer_def unat_sub)

lemma pull_states_bounded:
  "frames_in_bounded s \<Longrightarrow> granted \<le> frames_in (in_stream s) \<Longrightarrow>
     releases_granted r h s granted \<Longrightarrow> list_all frames_in_bounded (pull_states r h s)"
proof (induction r arbitrary: s granted)
  case (RsDone n d)
  then show ?case by simp
next
  case (RsGet req k)
  let ?g = "get_next_buffer h s \<lparr>raw = None, frame_count = req\<rparr>"
  have b: "frames_in_bounded (fst (snd ?g))"
    by (rule get_next_buffer_bounded [OF RsGet.prems(1)])
  have c: "frame_count (snd (snd ?g)) \<le> frames_in (in_stream (fst (snd ?g)))"
    by (rule get_next_buffer_clamp(1))
  from RsGet.prems(3)
  have r: "releases_granted (k (fst ?g, snd (snd ?g))) h (fst (snd ?g)) (frame_count (snd (snd ?g)))"
    by (simp add: Let_def)
  have "list_all frames_in_bounded (pull_states (k (fst ?g, snd (snd ?g))) h (fst (snd ?g)))"
    by (rule RsGet.IH [OF _ b c r]) simp
  with RsGet.prems(1) show ?case by (simp add: Let_def)
next
  case (RsRelease n r)
  let ?s = "release_buffer s \<lparr>raw = None, frame_count = n\<rparr>"
  from RsRelease.prems(3) have le: "n \<le> granted"
    and rest: "releases_granted r h ?s (granted - n)"
    by simp_all
  from le RsRelease.prems(2) have nf: "n \<le> frames_in (in_stream s)" by simp
  have f: "frames_in (in_stream ?s) = frames_in (in_stream s) - n"
    by (simp add: release_buffer_def)
  have "frames_in (in_stream s) - n \<le> frames_in (in_stream s)"
    using nf by (simp add: word_sub_le)
  with RsRelease.prems(1) have b: "frames_in_bounded ?s"
    by (simp add: frames_in_bounded_def release_buffer_def)
  have g: "granted - n \<le> frames_in (in_stream ?s)"
    using le RsRelease.prems(2) by (simp add: f word_le_nat_alt unat_sub nf diff_le_mono)
  from RsRelease.IH [OF b g rest] RsRelease.prems(1) show ?case by simp
qed


lemma start_input_stream_resets_frames_in:
  "resampler (in_stream s) \<Longrightarrow> fst (start_input_stream h s) = 0 \<Longrightarrow>
     frames_in_bounded (snd (start_input_stream h s))"
  by (auto simp add: start_input_stream_def in_geometry_def do_out_standby_def emit_def Let_def
      frames_in_bounded_def ENOMEM_def split: open_result.splits if_splits)

text \<open>
  Claim C7. Every \<^verbatim>\<open>get_next_buffer\<close> call reads the endpoint exactly when the handle is set
  and \<open>frames_in\<close> is zero, and then reads one period (\<open>channels * period_size\<close> samples of
  two bytes) in one \<^verbatim>\<open>pcm_read\<close>; a successful read sets \<open>frames_in\<close> to the period size; the
  \<open>frame_count\<close> it returns is at most \<open>frames_in\<close> and at most the count asked for. Every
  \<^verbatim>\<open>release_buffer\<close> call subtracts the consumed count from \<open>frames_in\<close>, without wrapping
  below zero when the count is part of what is buffered. So along every pull sequence in which
  the consumer gives back frames it was granted, \<open>0 \<le> frames_in \<le> period_size\<close> holds in
  every state.
\<close>

theorem buffer_provider_protocol:
  "n_read (fst (snd (get_next_buffer h s b))) = (if reading s then Suc (n_read s) else n_read s) \<and>
   trace (fst (snd (get_next_buffer h s b))) =
     (if reading s
      then trace s @ [PcmRead (pcm (in_stream s))
                        (channels (pcm_config (in_stream s)) * period_size (pcm_config (in_stream s))
                           * in_frame_size)]
      else trace s) \<and>
   (reading s \<and> fst (pcm_read_r h (n_read s)) = 0 \<longrightarrow>
      frames_in (in_stream (fst (snd (get_next_buffer h s b))))
        = period_size (pcm_config (in_stream s))) \<and>
   frame_count (snd (snd (get_next_buffer h s b)))
     \<le> frames_in (in_stream (fst (snd (get_next_buffer h s b)))) \<and>
   frame_count (snd (snd (get_next_buffer h s b))) \<le> frame_count b \<and>
   frames_in (in_stream (release_buffer s' b')) = frames_in (in_stream s') - frame_count b' \<and>
   (frame_count b' \<le> frames_in (in_stream s') \<longrightarrow>
      unat (frames_in (in_stream (release_buffer s' b')))
        = unat (frames_in (in_stream s')) - unat (frame_count b')) \<and>
   (frames_in_bounded s \<and> releases_granted r h s 0 \<longrightarrow>
      list_all frames_in_bounded (pull_states r h s))"
proof -
  have "frames_in_bounded s \<and> releases_granted r h s 0 \<longrightarrow>
      list_all frames_in_bounded (pull_states r h s)"
    using pull_states_bounded [of s 0 r h] by simp
  then show ?thesis
    using get_next_buffer_reads [of h s b] get_next_buffer_refill [of s h b]
      get_next_buffer_clamp [of h s b] release_buffer_frames_in(1) [of s' b']
      release_no_wrap [of b' s']
    by blast
qed

text \<open>The theorem of C7 on the SCO capture (period of 256 frames) and the example pulls:
  \<open>frames_in\<close> goes 0, 256, 156, 156, 0.\<close>

theorem buffer_provider_protocol_witness:
  "reading example_sco_capture \<and>
   fst (pcm_read_r example_hw (n_read example_sco_capture)) = 0 \<and>
   n_read example_after_get = 1 \<and>
   trace example_after_get = [PcmOpen 0 5 PCM_IN pcm_config_sco, PcmRead (Some 1) 512] \<and>
   frames_in (in_stream example_after_get) = 256 \<and>
   frame_count (snd (snd (get_next_buffer example_hw example_sco_capture
                            \<lparr>raw = None, frame_count = 100\<rparr>))) = 100 \<and>
   (100 :: u32) \<le> frames_in (in_stream example_after_get) \<and>
   frames_in (in_stream (release_buffer example_after_get \<lparr>raw = None, frame_count = 100\<rparr>))
     = 156 \<and>
   frames_in_bounded example_sco_capture \<and>
   releases_granted example_pulls example_hw example_sco_capture 0 \<and>
   list_all frames_in_bounded (pull_states example_pulls example_hw example_sco_capture) \<and>
   map (\<lambda>s. frames_in (in_stream s)) (pull_states example_pulls example_hw example_sco_capture)
     = [0, 256, 156, 156, 0]"
proof -
  have h1: "reading example_sco_capture \<and>
     fst (pcm_read_r example_hw (n_read example_sco_capture)) = 0"
    by code_simp
  have h2: "frame_count \<lparr>raw = None, frame_count = (100 :: u32)\<rparr>
      \<le> frames_in (in_stream example_after_get)"
    by code_simp
  have h3: "frames_in_bounded example_sco_capture \<and>
     releases_granted example_pulls example_hw example_sco_capture 0"
    by code_simp
  have e: "n_read example_after_get = 1 \<and>
     trace example_after_get = [PcmOpen 0 5 PCM_IN pcm_config_sco, PcmRead (Some 1) 512] \<and>
     frames_in (in_stream example_after_get) = 256 \<and>
     frame_count (snd (snd (get_next_buffer example_hw example_sco_capture
                            \<lparr>raw = None, frame_count = 100\<rparr>))) = 100 \<and>
     frames_in (in_stream (release_buffer example_after_get \<lparr>raw = None, frame_count = 100\<rparr>))
       = 156 \<and>
     map (\<lambda>s. frames_in (in_stream s)) (pull_states example_pulls example_hw example_sco_capture)
       = [0, 256, 156, 156, 0]"
    by code_simp
  from buffer_provider_protocol [of example_hw example_sco_capture
      "\<lparr>raw = None, frame_count = 100\<rparr>" example_after_get
      "\<lparr>raw = None, frame_count = 100\<rparr>" example_pulls] h3
  have "list_all frames_in_bounded (pull_states example_pulls example_hw example_sco_capture)"
    by blast
  with h1 h2 h3 e show ?thesis by simp
qed

subsection \<open>Reading with the microphone muted\<close>

lemma start_input_stream_mute:
  "mic_mute (adev (snd (start_input_stream h s))) = mic_mute (adev s)"
  "resampler (in_stream (snd (start_input_stream h s))) = resampler (in_stream s)"
  by (simp_all add: start_input_stream_def in_geometry_def do_out_standby_def emit_def Let_def
      split: open_result.splits)

lemma get_next_buffer_mute:
  "mic_mute (adev (fst (snd (get_next_buffer h s b)))) = mic_mute (adev s)"
  by (simp add: get_next_buffer_def grant_def pcm_read_def Let_def emit_def)

lemma release_buffer_mute: "mic_mute (adev (release_buffer s b)) = mic_mute (adev s)"
  by (simp add: release_buffer_def)

lemma run_rs_mute: "mic_mute (adev (fst (run_rs r h s))) = mic_mute (adev s)"
proof (induction r arbitrary: s)
  case (RsDone n d)
  then show ?case by simp
next
  case (RsGet req k)
  then show ?case by (simp add: Let_def get_next_buffer_mute)
next
  case (RsRelease n r)
  then show ?case by (simp add: release_buffer_mute)
qed

lemma read_frames_step_mute:
  "mic_mute (adev (fst (read_frames_step h s buf w n))) = mic_mute (adev s)"
  by (simp add: read_frames_step_def Let_def run_rs_mute get_next_buffer_mute release_buffer_mute
      emit_def split: option.splits)

lemmas read_frames_induct = read_frames_from.raw_induct [rotated 1, consumes 1, case_names step]

lemma read_frames_from_mute:
  assumes "read_frames_from h s buf frames w = Some r"
  shows "mic_mute (adev (fst (snd r))) = mic_mute (adev s)"
  using assms
proof (induction rule: read_frames_induct)
  case (step rf h s buf frames w r)
  from step(2) show ?case
    by (auto simp add: Let_def read_frames_step_mute split: if_splits dest!: step(1))
qed

lemma pcm_read_mute: "mic_mute (adev (snd (snd (pcm_read h s c)))) = mic_mute (adev s)"
  by (simp add: pcm_read_def Let_def emit_def)

lemma in_capture_mute:
  assumes "in_capture h s buf n = Some (ret, s1, cap)"
  shows "mic_mute (adev s1) = mic_mute (adev s)"
proof -
  define started where "started = (if standby (in_stream s) then start_input_stream h s else (0, s))"
  define s2 where "s2 = (if standby (in_stream s) \<and> fst started = 0
                then (snd started)\<lparr>in_stream := (in_stream (snd started))\<lparr>standby := False\<rparr>\<rparr>
                else snd started)"
  have m2: "mic_mute (adev s2) = mic_mute (adev s)"
    by (simp add: s2_def started_def start_input_stream_mute)
  have c: "in_capture h s buf n =
     (if fst started < 0 then Some (fst started, s2, buf)
      else if resampler (in_stream s2) then read_frames h s2 buf (n div in_frame_size)
      else if channels (pcm_config (in_stream s2)) = 2 then
           (let r = pcm_read h s2 (n * 2);
                s3 = snd (snd r);
                s4 = s3\<lparr>in_stream := (in_stream s3)
                          \<lparr>buffer := store_bytes (buffer (in_stream s3)) 0 (fst (snd r))\<rparr>\<rparr>
            in Some (fst r, s4, discard_right_to 0 (unat (n div in_frame_size))
                                  (buffer (in_stream s4)) buf))
      else (let r = pcm_read h s2 n
            in Some (fst r, snd (snd r), store_bytes buf 0 (fst (snd r)))))"
    unfolding in_capture_def s2_def started_def Let_def by (rule refl)
  consider (failed) "fst started < 0"
    | (conv) "\<not> fst started < 0" "resampler (in_stream s2)"
    | (stereo) "\<not> fst started < 0" "\<not> resampler (in_stream s2)"
        "channels (pcm_config (in_stream s2)) = 2"
    | (mono) "\<not> fst started < 0" "\<not> resampler (in_stream s2)"
        "channels (pcm_config (in_stream s2)) \<noteq> 2"
    by blast
  then have "mic_mute (adev s1) = mic_mute (adev s2)"
  proof cases
    case failed
    with assms c show ?thesis by simp
  next
    case conv
    with assms c have "read_frames_from h s2 buf (n div in_frame_size) 0 = Some (ret, s1, cap)"
      by (simp add: read_frames_def)
    from read_frames_from_mute [OF this] show ?thesis by simp
  next
    case stereo
    with assms c have "s1 = (snd (snd (pcm_read h s2 (n * 2))))
        \<lparr>in_stream := (in_stream (snd (snd (pcm_read h s2 (n * 2)))))
           \<lparr>buffer := store_bytes (buffer (in_stream (snd (snd (pcm_read h s2 (n * 2))))))
                        0 (fst (snd (pcm_read h s2 (n * 2))))\<rparr>\<rparr>"
      by (simp add: Let_def)
    then show ?thesis by (simp add: pcm_read_mute)
  next
    case mono
    with assms c have "s1 = snd (snd (pcm_read h s2 n))"
      by (simp add: Let_def)
    then show ?thesis by (simp add: pcm_read_mute)
  qed
  with m2 show ?thesis by simp
qed

lemma in_capture_total:
  assumes "\<not> resampler (in_stream s)"
  shows "in_capture h s buf n \<noteq> None"
proof -
  have r: "\<not> resampler (in_stream (snd (start_input_stream h s)))"
    using assms by (simp add: start_input_stream_mute)
  show ?thesis
    using assms r by (simp add: in_capture_def Let_def)
qed

lemma delivered_memset: "delivered (memset m 0 n) n = replicate (unat n) 0"
proof -
  have "map (\<lambda>i. if i < unat n then 0 else m i) [0..<unat n] = map (\<lambda>i. 0) [0..<unat n]"
    by (rule map_cong) simp_all
  then show ?thesis
    by (simp add: delivered_def memset_def map_replicate_const)
qed

text \<open>
  Claim C8 as stated fails: with mic-mute asserted and a hardware read that fails, \<^verbatim>\<open>in_read\<close>
  returns the requested 4 bytes, and the buffer it delivers holds the stale samples of the raw
  buffer, not zeroes.
\<close>

theorem in_read_mic_mute_counterexample:
  "mic_mute (adev example_muted) \<and>
   map_option (map_sum id (\<lambda>r. (fst r, delivered (snd (snd r)) 4)))
     (in_read example_hw_read_fails example_muted (\<lambda>i. 0) 4) = Some (Inr (4, [1, 1, 1, 1]))"
  by code_simp

text \<open>
  Claim C8, amended. While mic-mute is asserted: an \<^verbatim>\<open>in_read\<close> call whose stream start and
  capture report no failure (status not negative) returns the requested byte count and delivers
  a buffer that is zero over the full requested byte count, whatever was captured; a call whose
  start or capture fails (negative status) also returns the requested byte count, after a sleep,
  but delivers the buffer as the failed capture left it. Without a converter the call always
  returns.
\<close>

theorem in_read_mic_mute:
  assumes "mic_mute (adev s)"
  shows "(\<not> resampler (in_stream s) \<longrightarrow> in_capture h s buf n \<noteq> None) \<and>
    (in_capture h s buf n = Some (ret, s1, cap) \<and> 0 \<le> ret \<longrightarrow>
       in_read h s buf n = Some (Inr (n, s1, memset cap 0 n)) \<and>
       delivered (memset cap 0 n) n = replicate (unat n) 0) \<and>
    (in_capture h s buf n = Some (ret, s1, cap) \<and> ret < 0 \<and>
     requested_rate (in_stream s1) \<noteq> 0 \<longrightarrow>
       in_read h s buf n
         = Some (Inr (n, emit (Usleep (((n * 1000000) div in_frame_size)
                                          div requested_rate (in_stream s1))) s1, cap)))"
proof (intro conjI impI)
  assume "\<not> resampler (in_stream s)"
  then show "in_capture h s buf n \<noteq> None" by (rule in_capture_total)
next
  assume a: "in_capture h s buf n = Some (ret, s1, cap) \<and> 0 \<le> ret"
  then have m: "mic_mute (adev s1)"
    using in_capture_mute [of h s buf n ret s1 cap] assms by simp
  from a m show "in_read h s buf n = Some (Inr (n, s1, memset cap 0 n))"
    by (simp add: in_read_def in_read_finish_def Let_def)
  show "delivered (memset cap 0 n) n = replicate (unat n) 0"
    by (rule delivered_memset)
next
  assume a: "in_capture h s buf n = Some (ret, s1, cap) \<and> ret < 0 \<and>
     requested_rate (in_stream s1) \<noteq> 0"
  then show "in_read h s buf n
         = Some (Inr (n, emit (Usleep (((n * 1000000) div in_frame_size)
                                          div requested_rate (in_stream s1))) s1, cap))"
    by (simp add: in_read_def in_read_finish_def Let_def in_get_sample_rate_def)
qed

text \<open>The amended C8 on the muted example: reads that succeed deliver zeroes, reads that fail
  deliver the buffer as it is after the capture.\<close>

theorem in_read_mic_mute_witness:
  "mic_mute (adev example_muted) \<and> \<not> resampler (in_stream example_muted) \<and>
   in_capture example_hw example_muted (\<lambda>i. 9) 4 = Some example_capture \<and>
   0 \<le> fst example_capture \<and>
   in_read example_hw example_muted (\<lambda>i. 9) 4
     = Some (Inr (4, fst (snd example_capture), memset (snd (snd example_capture)) 0 4)) \<and>
   delivered (memset (snd (snd example_capture)) 0 4) 4 = [0, 0, 0, 0] \<and>
   in_capture example_hw_read_fails example_muted (\<lambda>i. 0) 4 = Some example_failed_capture \<and>
   fst example_failed_capture < 0 \<and>
   requested_rate (in_stream (fst (snd example_failed_capture))) \<noteq> 0 \<and>
   in_read example_hw_read_fails example_muted (\<lambda>i. 0) 4
     = Some (Inr (4, emit (Usleep 45) (fst (snd example_failed_capture)),
                  snd (snd example_failed_capture)))"
proof -
  have m: "mic_mute (adev example_muted)" by code_simp
  have nr: "\<not> resampler (in_stream example_muted)" by code_simp
  have "\<not> Option.is_none (in_capture example_hw example_muted (\<lambda>i. 9) 4)"
    by code_simp
  then have c1: "in_capture example_hw example_muted (\<lambda>i. 9) 4
      = Some (fst example_capture, fst (snd example_capture), snd (snd example_capture))"
    by (auto simp add: example_capture_def Option.is_none_def)
  have "\<not> Option.is_none (in_capture example_hw_read_fails example_muted (\<lambda>i. 0) 4)"
    by code_simp
  then have c2: "in_capture example_hw_read_fails example_muted (\<lambda>i. 0) 4
      = Some (fst example_failed_capture, fst (snd example_failed_capture),
              snd (snd example_failed_capture))"
    by (auto simp add: example_failed_capture_def Option.is_none_def)
  have r1: "0 \<le> fst example_capture" by code_simp
  have r2: "fst example_failed_capture < 0" by code_simp
  have q: "requested_rate (in_stream (fst (snd example_failed_capture))) \<noteq> 0" by code_simp
  have u: "(((4 :: u32) * 1000000) div in_frame_size)
      div requested_rate (in_stream (fst (snd example_failed_capture))) = 45"
    by code_simp
  have z: "replicate (unat (4 :: u32)) (0 :: byte) = [0, 0, 0, 0]" by code_simp
  note t1 = in_read_mic_mute [OF m, of example_hw "\<lambda>i. 9" 4 "fst example_capture"
      "fst (snd example_capture)" "snd (snd example_capture)"]
  note t2 = in_read_mic_mute [OF m, of example_hw_read_fails "\<lambda>i. 0" 4
      "fst example_failed_capture" "fst (snd example_failed_capture)"
      "snd (snd example_failed_capture)"]
  from t1 c1 r1 z have a1: "in_read example_hw example_muted (\<lambda>i. 9) 4
     = Some (Inr (4, fst (snd example_capture), memset (snd (snd example_capture)) 0 4))"
    and a2: "delivered (memset (snd (snd example_capture)) 0 4) 4 = [0, 0, 0, 0]"
    by simp_all
  from t2 c2 r2 q u have a3: "in_read example_hw_read_fails example_muted (\<lambda>i. 0) 4
     = Some (Inr (4, emit (Usleep 45) (fst (snd example_failed_capture)),
                  snd (snd example_failed_capture)))"
    by simp
  have c1': "in_capture example_hw example_muted (\<lambda>i. 9) 4 = Some example_capture"
    using c1 by simp
  have c2': "in_capture example_hw_read_fails example_muted (\<lambda>i. 0) 4
      = Some example_failed_capture"
    using c2 by simp
  show ?thesis
    using m nr c1' r1 a1 a2 c2' r2 q a3 by blast
qed

end
